theory Spec2Isabelle
  imports Complex_Main "HOL-Library.Sublist" "HOL-Library.Multiset"
begin

section \<open>Python values shared by the modules\<close>

text \<open>
  A Python \<open>str\<close> is modelled as a \<open>string\<close> holding its UTF-8 encoding: concatenation
  and the substring test \<open>sub in s\<close> act on the encoded text as they act on the code
  points. The literals of the source outside ASCII are written out byte by byte.
  Functions of the interpreter that depend on Unicode tables (\<open>str.lower\<close>,
  \<open>str.split\<close>) are parameters of the functions that call them, so every theorem holds
  for whatever tables the interpreter has.

  An exception is a value: its class name and the text \<open>str(e)\<close>. A function that can
  raise returns \<open>py_exception + 'a\<close>, with \<open>Inl\<close> the exception.
\<close>

datatype py_exception = PyException (exc_class: string) (exc_str: string)

definition a_acute :: string where "a_acute = [CHR 0xC3, CHR 0xA1]"
definition e_acute :: string where "e_acute = [CHR 0xC3, CHR 0xA9]"
definition i_acute :: string where "i_acute = [CHR 0xC3, CHR 0xAD]"
definition o_acute :: string where "o_acute = [CHR 0xC3, CHR 0xB3]"
definition u_acute :: string where "u_acute = [CHR 0xC3, CHR 0xBA]"
definition inverted_question :: string where "inverted_question = [CHR 0xC2, CHR 0xBF]"
definition cross_mark :: string where "cross_mark = [CHR 0xE2, CHR 0x9D, CHR 0x8C]"
definition check_mark :: string where "check_mark = [CHR 0xE2, CHR 0x9C, CHR 0x85]"
definition calendar_sign :: string where "calendar_sign = [CHR 0xF0, CHR 0x9F, CHR 0x93, CHR 0x85]"
definition money_bag :: string where "money_bag = [CHR 0xF0, CHR 0x9F, CHR 0x92, CHR 0xB0]"
definition package_sign :: string where "package_sign = [CHR 0xF0, CHR 0x9F, CHR 0x93, CHR 0xA6]"
definition warning_sign :: string where
  "warning_sign = [CHR 0xE2, CHR 0x9A, CHR 0xA0, CHR 0xEF, CHR 0xB8, CHR 0x8F]"
definition gem_stone :: string where "gem_stone = [CHR 0xF0, CHR 0x9F, CHR 0x92, CHR 0x8E]"

text \<open>\<open>sub in s\<close> on strings.\<close>

fun str_contains :: "string \<Rightarrow> string \<Rightarrow> bool" where
  "str_contains [] sub = (sub = [])"
| "str_contains (c # cs) sub = (prefix sub (c # cs) \<or> str_contains cs sub)"

text \<open>
  \<open>s.count(sub)\<close>: the number of non-overlapping occurrences of \<open>sub\<close> in \<open>s\<close>, scanning
  from the left; for the empty \<open>sub\<close> it is \<open>len(s) + 1\<close>.
\<close>

function str_count :: "string \<Rightarrow> string \<Rightarrow> nat" where
  "str_count s sub =
     (if sub = [] then length s + 1
      else if length s < length sub then 0
      else if prefix sub s then 1 + str_count (drop (length sub) s) sub
      else str_count (tl s) sub)"
  by pat_completeness auto
termination
proof (relation "measure (\<lambda>(s, sub). length s)")
  fix s sub :: string
  assume "sub \<noteq> []" and "\<not> length s < length sub"
  then have "0 < length sub" and "0 < length s" and "s \<noteq> []"
    by (cases sub; cases s; simp)+
  then show "((drop (length sub) s, sub), s, sub) \<in> measure (\<lambda>(s, sub). length s)"
    and "((tl s, sub), s, sub) \<in> measure (\<lambda>(s, sub). length s)"
    by simp_all
qed simp

declare str_count.simps [simp del]

text \<open>\<open>str(n)\<close> for an int, and \<open>'%0wd'\<close> for a non-negative one.\<close>

definition digit_char :: "nat \<Rightarrow> char" where
  "digit_char d = ''0123456789'' ! d"

function str_nat :: "nat \<Rightarrow> string" where
  "str_nat n = (if n < 10 then [digit_char n] else str_nat (n div 10) @ [digit_char (n mod 10)])"
  by pat_completeness auto
termination
  by (relation "measure (\<lambda>n. n)") auto

declare str_nat.simps [simp del]

definition str_int :: "int \<Rightarrow> string" where
  "str_int i = (if i < 0 then ''-'' @ str_nat (nat (- i)) else str_nat (nat i))"

definition zero_pad :: "nat \<Rightarrow> nat \<Rightarrow> string" where
  "zero_pad w n = replicate (w - length (str_nat n)) (CHR ''0'') @ str_nat n"

subsection \<open>datetime\<close>

text \<open>
  A naive \<open>datetime\<close> (no time zone), as \<open>datetime.now()\<close> and \<open>datetime.strptime\<close>
  return it. The clock is an argument of every function that reads it.
\<close>

record datetime =
  year :: nat
  month :: nat
  day :: nat
  hour :: nat
  minute :: nat
  second :: nat
  microsecond :: nat

definition is_leap :: "nat \<Rightarrow> bool" where
  "is_leap y = (y mod 4 = 0 \<and> (y mod 100 \<noteq> 0 \<or> y mod 400 = 0))"

definition days_in_month :: "nat \<Rightarrow> nat \<Rightarrow> nat" where
  "days_in_month y m =
     (if m = 2 then (if is_leap y then 29 else 28)
      else if m = 4 \<or> m = 6 \<or> m = 9 \<or> m = 11 then 30 else 31)"

definition valid_datetime :: "datetime \<Rightarrow> bool" where
  "valid_datetime dt =
     (1 \<le> year dt \<and> year dt \<le> 9999 \<and> 1 \<le> month dt \<and> month dt \<le> 12 \<and>
      1 \<le> day dt \<and> day dt \<le> days_in_month (year dt) (month dt) \<and>
      hour dt < 24 \<and> minute dt < 60 \<and> second dt < 60 \<and> microsecond dt < 1000000)"

text \<open>\<open>dt.isoformat()\<close>: the fraction is printed only when it is not zero.\<close>

definition isoformat :: "datetime \<Rightarrow> string" where
  "isoformat dt =
     zero_pad 4 (year dt) @ ''-'' @ zero_pad 2 (month dt) @ ''-'' @ zero_pad 2 (day dt) @
     ''T'' @ zero_pad 2 (hour dt) @ '':'' @ zero_pad 2 (minute dt) @ '':'' @
     zero_pad 2 (second dt) @
     (if microsecond dt = 0 then [] else ''.'' @ zero_pad 6 (microsecond dt))"

text \<open>
  The proleptic Gregorian ordinal of a date (\<open>date.toordinal\<close>: 1 January of year 1 is
  day 1), and \<open>(a - b).days\<close>: the difference in whole days, rounded down.
\<close>

definition days_before_year :: "nat \<Rightarrow> int" where
  "days_before_year y =
     (let p = int y - 1 in p * 365 + p div 4 - p div 100 + p div 400)"

definition days_before_month :: "nat \<Rightarrow> nat \<Rightarrow> int" where
  "days_before_month y m = int (sum_list (map (days_in_month y) [1..<m]))"

definition toordinal :: "datetime \<Rightarrow> int" where
  "toordinal dt = days_before_year (year dt) + days_before_month (year dt) (month dt) + int (day dt)"

definition total_microseconds :: "datetime \<Rightarrow> int" where
  "total_microseconds dt =
     ((toordinal dt * 24 + int (hour dt)) * 60 + int (minute dt)) * 60000000 +
     int (second dt) * 1000000 + int (microsecond dt)"

definition timedelta_days :: "datetime \<Rightarrow> datetime \<Rightarrow> int" where
  "timedelta_days a b = (total_microseconds a - total_microseconds b) div 86400000000"

section \<open>agente/rag\_pipeline.py\<close>

record document =
  page_content :: string
  metadata :: "(string \<times> string) list"

record qa_result =
  result :: string
  source_documents :: "document list"

datatype embeddings = OpenAIEmbeddings string

text \<open>
  The vector store is either the external FAISS index, known here only by what its
  search returns, or the \<open>SimulatedVectorStore\<close> over the documents it was built from.
\<close>

datatype vectorstore =
  FAISS "string \<Rightarrow> int \<Rightarrow> py_exception + document list"
| SimulatedVectorStore "document list"

text \<open>
  The QA chain is either the external \<open>RetrievalQA\<close> chain, known here only by what its
  \<open>run\<close> returns or raises, or the \<open>SimulatedQAChain\<close>. What \<open>run\<close> returns is kept as
  an answer text with its source documents (a \<open>run\<close> that returns the bare text is the
  one without documents).
\<close>

datatype qa_chain =
  RetrievalQA "string \<Rightarrow> py_exception + qa_result"
| SimulatedQAChain

record rag_pipeline =
  use_simulated_model :: bool
  embeddings :: "embeddings option"
  vectorstore :: "vectorstore option"
  retriever :: "vectorstore option"
  qa_chain :: "qa_chain option"

subsection \<open>SimulatedVectorStore.similarity\_search\<close>

text \<open>
  The loop over the keywords of one document: \<open>score\<close> grows by
  \<open>content_lower.count(keyword)\<close> for every keyword found in the content.
\<close>

fun score_keywords :: "string \<Rightarrow> string list \<Rightarrow> int \<Rightarrow> int" where
  "score_keywords content_lower [] score = score"
| "score_keywords content_lower (keyword # keywords) score =
     score_keywords content_lower keywords
       (if str_contains content_lower keyword
        then score + int (str_count content_lower keyword) else score)"

text \<open>
  The loop over the documents: a document with a positive score is appended to
  \<open>scored_docs\<close> with its score.
\<close>

fun score_documents ::
  "(string \<Rightarrow> string) \<Rightarrow> (string \<Rightarrow> string list) \<Rightarrow> string \<Rightarrow> document list \<Rightarrow>
   (int \<times> document) list \<Rightarrow> (int \<times> document) list" where
  "score_documents str_lower str_split query_lower [] scored_docs = scored_docs"
| "score_documents str_lower str_split query_lower (doc # docs) scored_docs =
     (let content_lower = str_lower (page_content doc);
          score = score_keywords content_lower (str_split query_lower) 0
      in score_documents str_lower str_split query_lower docs
           (if 0 < score then scored_docs @ [(score, doc)] else scored_docs))"

text \<open>
  \<open>xs.sort(key=f, reverse=True)\<close>: the list is reversed, sorted by a stable ascending
  sort, and reversed again, so that equal keys keep their order. \<open>xs[:k]\<close> for an int
  \<open>k\<close>: a negative \<open>k\<close> counts from the end.
\<close>

definition list_sort_reverse :: "('a \<Rightarrow> int) \<Rightarrow> 'a list \<Rightarrow> 'a list" where
  "list_sort_reverse f xs = rev (sort_key f (rev xs))"

definition slice_to :: "'a list \<Rightarrow> int \<Rightarrow> 'a list" where
  "slice_to xs k = (if 0 \<le> k then take (nat k) xs else take (length xs - nat (- k)) xs)"

definition similarity_search ::
  "(string \<Rightarrow> string) \<Rightarrow> (string \<Rightarrow> string list) \<Rightarrow> document list \<Rightarrow> string \<Rightarrow> int \<Rightarrow>
   document list" where
  "similarity_search str_lower str_split docs query k =
     (let query_lower = str_lower query;
          scored_docs = score_documents str_lower str_split query_lower docs [];
          sorted_docs = list_sort_reverse fst scored_docs
      in map snd (slice_to sorted_docs k))"

text \<open>
  The retrieval as the specification words it: the terms of the query, and the score
  of a document, the sum over the terms of their occurrences in the lowercased content.
\<close>

definition query_terms :: "(string \<Rightarrow> string) \<Rightarrow> (string \<Rightarrow> string list) \<Rightarrow> string \<Rightarrow> string list" where
  "query_terms str_lower str_split query = str_split (str_lower query)"

definition spec_score ::
  "(string \<Rightarrow> string) \<Rightarrow> (string \<Rightarrow> string list) \<Rightarrow> string \<Rightarrow> document \<Rightarrow> int" where
  "spec_score str_lower str_split query doc =
     (\<Sum>t\<leftarrow>query_terms str_lower str_split query.
        int (str_count (str_lower (page_content doc)) t))"

text \<open>
  \<open>str.lower\<close> and \<open>str.split()\<close> on ASCII text, to run the functions on examples.
\<close>

definition ascii_lower :: "string \<Rightarrow> string" where
  "ascii_lower s =
     map (\<lambda>c. case map_of (zip ''ABCDEFGHIJKLMNOPQRSTUVWXYZ'' ''abcdefghijklmnopqrstuvwxyz'') c of
                 Some l \<Rightarrow> l | None \<Rightarrow> c) s"

definition ascii_space :: "char \<Rightarrow> bool" where
  "ascii_space c = (c \<in> set [CHR '' '', CHR 0x09, CHR 0x0A, CHR 0x0B, CHR 0x0C, CHR 0x0D,
                              CHR 0x1C, CHR 0x1D, CHR 0x1E, CHR 0x1F])"

fun split_from :: "string \<Rightarrow> string \<Rightarrow> string list" where
  "split_from word [] = (if word = [] then [] else [word])"
| "split_from word (c # cs) =
     (if ascii_space c then (if word = [] then split_from [] cs else word # split_from [] cs)
      else split_from (word @ [c]) cs)"

definition ascii_split :: "string \<Rightarrow> string list" where
  "ascii_split s = split_from [] s"

subsection \<open>create\_vectorstore\<close>

text \<open>
  \<open>_load_default_documents\<close> reads the \<open>data\<close> directory and \<open>FAISS.from_documents\<close> calls
  the embedding backend: what they return or raise is given. In the handler,
  \<open>documents\<close> is still \<open>None\<close> when loading the documents raised, and holds the documents
  when building the index raised.
\<close>

definition create_simulated_vectorstore :: "document list \<Rightarrow> vectorstore" where
  "create_simulated_vectorstore docs = SimulatedVectorStore docs"

definition create_vectorstore ::
  "(py_exception + document list) \<Rightarrow> (document list \<Rightarrow> embeddings \<Rightarrow> py_exception + vectorstore) \<Rightarrow>
   rag_pipeline \<Rightarrow> document list option \<Rightarrow> rag_pipeline" where
  "create_vectorstore load_default_documents faiss_from_documents self documents =
     (case (case documents of None \<Rightarrow> load_default_documents | Some docs \<Rightarrow> Inr docs) of
        Inl e \<Rightarrow> self\<lparr>vectorstore := Some (create_simulated_vectorstore [])\<rparr>
      | Inr docs \<Rightarrow>
          (case (if \<not> use_simulated_model self then embeddings self else None) of
             Some emb \<Rightarrow>
               (case faiss_from_documents docs emb of
                  Inr store \<Rightarrow> self\<lparr>vectorstore := Some store\<rparr>
                | Inl e \<Rightarrow> self\<lparr>vectorstore := Some (create_simulated_vectorstore docs)\<rparr>)
           | None \<Rightarrow> self\<lparr>vectorstore := Some (create_simulated_vectorstore docs)\<rparr>))"

subsection \<open>SimulatedLLM, SimulatedQAChain and query\<close>

text \<open>\<open>SimulatedLLM.__call__\<close>: the first keyword found in the lowercased prompt picks the answer.\<close>

definition simulated_llm :: "(string \<Rightarrow> string) \<Rightarrow> string \<Rightarrow> string" where
  "simulated_llm str_lower prompt =
     (let prompt_lower = str_lower prompt
      in if str_contains prompt_lower (''devoluci'' @ o_acute @ ''n'') \<or>
            str_contains prompt_lower ''devolver'' then
           ''Para procesar una devoluci'' @ o_acute @
           ''n, necesito verificar la elegibilidad del producto y generar una etiqueta de devoluci'' @
           o_acute @ ''n.''
         else if str_contains prompt_lower (''pol'' @ i_acute @ ''tica'') then
           ''Las pol'' @ i_acute @ ''ticas de devoluci'' @ o_acute @ ''n var'' @ i_acute @
           ''an seg'' @ u_acute @ ''n la categor'' @ i_acute @ ''a del producto. Los electr'' @
           o_acute @ ''nicos tienen 30 d'' @ i_acute @ ''as, computadoras 15 d'' @ i_acute @
           ''as, audio 14 d'' @ i_acute @ ''as y tablets 7 d'' @ i_acute @ ''as.''
         else if str_contains prompt_lower ''soporte'' \<or> str_contains prompt_lower ''ayuda'' then
           ''Puedo ayudarte con consultas sobre devoluciones, informaci'' @ o_acute @
           ''n de productos y pol'' @ i_acute @ ''ticas de la empresa.''
         else
           ''Soy EcoAgent, tu asistente para devoluciones. '' @ inverted_question @
           ''En qu'' @ e_acute @ '' puedo ayudarte?'')"

text \<open>
  \<open>qa_chain.run\<close>. The \<open>SimulatedQAChain\<close> has no \<open>retriever\<close> attribute, so its \<open>run\<close>
  finds no documents and answers with its \<open>SimulatedLLM\<close>. (In the source the
  constructor of \<open>SimulatedQAChain\<close> calls \<open>_create_simulated_llm\<close>, a method of the
  pipeline, on the chain itself: \<open>run\<close> is modelled as written, for a chain that holds
  the \<open>SimulatedLLM\<close>.)
\<close>

definition run_chain :: "(string \<Rightarrow> string) \<Rightarrow> qa_chain \<Rightarrow> string \<Rightarrow> py_exception + qa_result" where
  "run_chain str_lower chain question =
     (case chain of
        RetrievalQA run \<Rightarrow> run question
      | SimulatedQAChain \<Rightarrow>
          Inr \<lparr>result = simulated_llm str_lower question, source_documents = []\<rparr>)"

text \<open>\<open>EcoRAGPipeline.query\<close>: the body of the \<open>try\<close>, and the function with its handler.\<close>

definition query_body :: "(string \<Rightarrow> string) \<Rightarrow> rag_pipeline \<Rightarrow> string \<Rightarrow> py_exception + qa_result" where
  "query_body str_lower self question =
     (case qa_chain self of
        Some chain \<Rightarrow> run_chain str_lower chain question
      | None \<Rightarrow>
          Inr \<lparr>result = ''Lo siento, el sistema RAG no est'' @ a_acute @
                         '' disponible en este momento.'',
               source_documents = []\<rparr>)"

definition query :: "(string \<Rightarrow> string) \<Rightarrow> rag_pipeline \<Rightarrow> string \<Rightarrow> py_exception + qa_result" where
  "query str_lower self question =
     (case query_body str_lower self question of
        Inr r \<Rightarrow> Inr r
      | Inl e \<Rightarrow>
          Inr \<lparr>result = ''Error al procesar la consulta: '' @ exc_str e,
               source_documents = []\<rparr>)"

text \<open>
  The pipelines whose answers come from the \<open>SimulatedLLM\<close>: no chain, the simulated
  chain, or an external chain that, when it returns, returns a text of the
  \<open>SimulatedLLM\<close> on some prompt.
\<close>

definition answers_by_simulated_llm :: "(string \<Rightarrow> string) \<Rightarrow> rag_pipeline \<Rightarrow> bool" where
  "answers_by_simulated_llm str_lower self =
     (case qa_chain self of
        None \<Rightarrow> True
      | Some SimulatedQAChain \<Rightarrow> True
      | Some (RetrievalQA run) \<Rightarrow>
          (\<forall>question r. run question = Inr r \<longrightarrow>
             (\<exists>prompt. result r = simulated_llm str_lower prompt)))"

section \<open>agente/tools.py\<close>

text \<open>
  \<open>datetime.strptime(s, "%Y-%m-%d")\<close>: four digits, a dash, a month \<open>1[0-2]|0[1-9]|[1-9]\<close>,
  a dash, a day \<open>3[0-1]|[1-2]\d|0[1-9]|[1-9]| [1-9]\<close> and nothing more; then the date must
  exist. Every failure is a \<open>ValueError\<close>. Only ASCII digits are read as digits.
\<close>

definition digit_value :: "char \<Rightarrow> nat" where
  "digit_value c =
     (case map_of (zip ''0123456789'' [0, 1, 2, 3, 4, 5, 6, 7, 8, 9]) c of
        Some d \<Rightarrow> d | None \<Rightarrow> 0)"

definition is_digit :: "char \<Rightarrow> bool" where
  "is_digit c = (c \<in> set ''0123456789'')"

fun match_month :: "string \<Rightarrow> (nat \<times> string) option" where
  "match_month [] = None"
| "match_month [a] = (if a \<in> set ''123456789'' then Some (digit_value a, []) else None)"
| "match_month (a # b # rest) =
     (if a = CHR ''1'' \<and> b \<in> set ''012'' then Some (10 + digit_value b, rest)
      else if a = CHR ''0'' \<and> b \<in> set ''123456789'' then Some (digit_value b, rest)
      else if a \<in> set ''123456789'' then Some (digit_value a, b # rest)
      else None)"

fun match_day :: "string \<Rightarrow> (nat \<times> string) option" where
  "match_day [] = None"
| "match_day [a] = (if a \<in> set ''123456789'' then Some (digit_value a, []) else None)"
| "match_day (a # b # rest) =
     (if a = CHR ''3'' \<and> b \<in> set ''01'' then Some (30 + digit_value b, rest)
      else if a \<in> set ''12'' \<and> is_digit b then Some (10 * digit_value a + digit_value b, rest)
      else if a = CHR ''0'' \<and> b \<in> set ''123456789'' then Some (digit_value b, rest)
      else if a \<in> set ''123456789'' then Some (digit_value a, b # rest)
      else if a = CHR '' '' \<and> b \<in> set ''123456789'' then Some (digit_value b, rest)
      else None)"

definition value_error :: py_exception where
  "value_error = PyException ''ValueError'' ''time data does not match format %Y-%m-%d''"

definition strptime_ymd :: "string \<Rightarrow> py_exception + datetime" where
  "strptime_ymd s =
     (case s of
        y1 # y2 # y3 # y4 # dash1 # rest1 \<Rightarrow>
          if is_digit y1 \<and> is_digit y2 \<and> is_digit y3 \<and> is_digit y4 \<and> dash1 = CHR ''-'' then
            (case match_month rest1 of
               Some (m, dash2 # rest2) \<Rightarrow>
                 if dash2 = CHR ''-'' then
                   (case match_day rest2 of
                      Some (d, []) \<Rightarrow>
                        (let y = 1000 * digit_value y1 + 100 * digit_value y2 +
                                 10 * digit_value y3 + digit_value y4
                         in if 1 \<le> y \<and> d \<le> days_in_month y m
                            then Inr \<lparr>year = y, month = m, day = d, hour = 0, minute = 0,
                                      second = 0, microsecond = 0\<rparr>
                            else Inl value_error)
                    | _ \<Rightarrow> Inl value_error)
                 else Inl value_error
             | _ \<Rightarrow> Inl value_error)
          else Inl value_error
      | _ \<Rightarrow> Inl value_error)"

text \<open>
  The product table of \<open>ProductoTools\<close>. A price is a float in the source; it is kept
  here as the decimal the source writes, and \<open>str_price\<close> prints it as Python prints
  the float nearest to a decimal of at most two places.
\<close>

record producto =
  nombre :: string
  categoria :: string
  precio :: rat
  garantia_dias :: int
  elegible_devolucion :: bool

definition productos_db :: "string \<rightharpoonup> producto" where
  "productos_db = map_of
     [(''PROD001'', \<lparr>nombre = ''Smartphone EcoTech Pro'',
                      categoria = ''Electr'' @ o_acute @ ''nicos'',
                      precio = 29999 / 100, garantia_dias = 30, elegible_devolucion = True\<rparr>),
      (''PROD002'', \<lparr>nombre = ''Laptop EcoFriendly'',
                      categoria = ''Computadoras'',
                      precio = 89999 / 100, garantia_dias = 15, elegible_devolucion = True\<rparr>),
      (''PROD003'', \<lparr>nombre = ''Auriculares Wireless'',
                      categoria = ''Audio'',
                      precio = 7999 / 100, garantia_dias = 14, elegible_devolucion = True\<rparr>),
      (''PROD004'', \<lparr>nombre = ''Tablet EcoPad'',
                      categoria = ''Tablets'',
                      precio = 19999 / 100, garantia_dias = 7, elegible_devolucion = False\<rparr>)]"

definition str_price :: "rat \<Rightarrow> string" where
  "str_price p =
     (let hundredths = nat \<lfloor>p * 100\<rfloor>; units = hundredths div 100; cents = hundredths mod 100
      in str_nat units @ ''.'' @
         (if cents mod 10 = 0 then str_nat (cents div 10) else zero_pad 2 cents))"

fun str_join :: "string \<Rightarrow> string list \<Rightarrow> string" where
  "str_join sep [] = []"
| "str_join sep [x] = x"
| "str_join sep (x # y # ys) = x @ sep @ str_join sep (y # ys)"

text \<open>
  \<open>_verificar_condiciones_adicionales\<close>: the lookup raises \<open>KeyError\<close> on an unknown id.
  \<open>dias > garantia * 0.8\<close> is compared exactly; for the four periods of the table the
  float product gives the same answer on every int.
\<close>

definition verificar_condiciones_adicionales :: "string \<Rightarrow> int \<Rightarrow> py_exception + string" where
  "verificar_condiciones_adicionales producto_id dias_transcurridos =
     (case productos_db producto_id of
        None \<Rightarrow> Inl (PyException ''KeyError'' producto_id)
      | Some producto \<Rightarrow>
          (let condiciones =
                 (if rat_of_int dias_transcurridos > rat_of_int (garantia_dias producto) * (8 / 10)
                  then [warning_sign @ '' Nota: Est'' @ a_acute @ '' cerca del l'' @ i_acute @
                        ''mite del per'' @ i_acute @ ''odo de devoluci'' @ o_acute @ ''n.'']
                  else []) @
                 (if precio producto > 500
                  then [gem_stone @ '' Producto de alto valor: Se requiere inspecci'' @ o_acute @
                        ''n adicional.'']
                  else [])
           in Inr (if condiciones \<noteq> [] then str_join [CHR 0x0A] condiciones
                   else check_mark @ '' Todas las condiciones cumplidas.'')))"

text \<open>
  \<open>verificar_elegibilidad_producto\<close>: the body of the outer \<open>try\<close>, in which each \<open>return\<close>
  is an \<open>Inr\<close>, and the function, whose handler turns an exception of the body into a
  text. The inner handler turns the \<open>ValueError\<close> of \<open>strptime\<close> into a text.
\<close>

definition verificar_elegibilidad_body :: "datetime \<Rightarrow> string \<Rightarrow> string \<Rightarrow> py_exception + string" where
  "verificar_elegibilidad_body now producto_id fecha_compra =
     (case productos_db producto_id of
        None \<Rightarrow>
          Inr (cross_mark @ '' Error: El producto '' @ producto_id @
               '' no existe en nuestro sistema.'')
      | Some producto \<Rightarrow>
          if \<not> elegible_devolucion producto then
            Inr (cross_mark @ '' El producto '' @ nombre producto @ '' ('' @ producto_id @
                 '') no es elegible para devoluci'' @ o_acute @ ''n seg'' @ u_acute @
                 ''n nuestras pol'' @ i_acute @ ''ticas.'')
          else
            (case strptime_ymd fecha_compra of
               Inl e \<Rightarrow>
                 Inr (cross_mark @ '' Error: Formato de fecha inv'' @ a_acute @
                      ''lido. Use YYYY-MM-DD'')
             | Inr fecha_compra_obj \<Rightarrow>
                 (let dias_transcurridos = timedelta_days now fecha_compra_obj
                  in if dias_transcurridos > garantia_dias producto then
                       Inr (cross_mark @ '' El producto '' @ nombre producto @ '' ('' @ producto_id @
                            '') ya no es elegible para devoluci'' @ o_acute @ ''n. '' @
                            ''Han transcurrido '' @ str_int dias_transcurridos @ '' d'' @ i_acute @
                            ''as desde la compra, '' @
                            ''pero el per'' @ i_acute @ ''odo de devoluci'' @ o_acute @
                            ''n es de '' @ str_int (garantia_dias producto) @ '' d'' @ i_acute @ ''as.'')
                     else
                       (case verificar_condiciones_adicionales producto_id dias_transcurridos of
                          Inl e \<Rightarrow> Inl e
                        | Inr condiciones_adicionales \<Rightarrow>
                            Inr (check_mark @ '' El producto '' @ nombre producto @ '' ('' @
                                 producto_id @ '') ES ELEGIBLE para devoluci'' @ o_acute @ ''n.'' @
                                 [CHR 0x0A] @
                                 calendar_sign @ '' D'' @ i_acute @ ''as transcurridos: '' @
                                 str_int dias_transcurridos @ ''/'' @
                                 str_int (garantia_dias producto) @ [CHR 0x0A] @
                                 money_bag @ '' Precio: $'' @ str_price (precio producto) @ [CHR 0x0A] @
                                 package_sign @ '' Categor'' @ i_acute @ ''a: '' @ categoria producto @
                                 [CHR 0x0A] @
                                 condiciones_adicionales)))))"

definition verificar_elegibilidad_producto :: "datetime \<Rightarrow> string \<Rightarrow> string \<Rightarrow> py_exception + string" where
  "verificar_elegibilidad_producto now producto_id fecha_compra =
     (case verificar_elegibilidad_body now producto_id fecha_compra of
        Inr resultado \<Rightarrow> Inr resultado
      | Inl e \<Rightarrow>
          Inr (cross_mark @ '' Error interno al verificar elegibilidad: '' @ exc_str e))"

text \<open>
  The calls that find the product eligible, and so return the success message.
\<close>

definition finds_eligible :: "datetime \<Rightarrow> string \<Rightarrow> string \<Rightarrow> bool" where
  "finds_eligible now producto_id fecha_compra =
     (case productos_db producto_id of
        None \<Rightarrow> False
      | Some producto \<Rightarrow>
          elegible_devolucion producto \<and>
          (case strptime_ymd fecha_compra of
             Inl e \<Rightarrow> False
           | Inr fecha_compra_obj \<Rightarrow> timedelta_days now fecha_compra_obj \<le> garantia_dias producto))"

section \<open>agente/eco\_agent.py\<close>

subsection \<open>EcoAgentLogger\<close>

text \<open>
  \<open>json.dumps(entry, ensure_ascii=False)\<close> for a dict of strings: the members in
  insertion order, separated by \<open>", "\<close>, key and value separated by \<open>": "\<close>. In a string
  the quote, the backslash and the control characters are escaped, the control
  characters without a short form as \<open>\u00XX\<close>; every other character is written as
  it is.
\<close>

definition quote_char :: char where "quote_char = CHR 0x22"
definition backslash_char :: char where "backslash_char = CHR 0x5C"
definition newline_char :: char where "newline_char = CHR 0x0A"

definition hex_digit :: "nat \<Rightarrow> char" where
  "hex_digit d = ''0123456789abcdef'' ! d"

definition json_escape_char :: "char \<Rightarrow> string" where
  "json_escape_char c =
     (if c = quote_char then [backslash_char, quote_char]
      else if c = backslash_char then [backslash_char, backslash_char]
      else if c = CHR 0x08 then [backslash_char, CHR ''b'']
      else if c = CHR 0x0C then [backslash_char, CHR ''f'']
      else if c = CHR 0x0A then [backslash_char, CHR ''n'']
      else if c = CHR 0x0D then [backslash_char, CHR ''r'']
      else if c = CHR 0x09 then [backslash_char, CHR ''t'']
      else if (of_char c :: nat) < 32 then
        [backslash_char, CHR ''u'', CHR ''0'', CHR ''0'',
         hex_digit (of_char c div 16), hex_digit (of_char c mod 16)]
      else [c])"

definition json_encode_string :: "string \<Rightarrow> string" where
  "json_encode_string s = quote_char # concat (map json_escape_char s) @ [quote_char]"

definition json_member :: "string \<times> string \<Rightarrow> string" where
  "json_member kv = json_encode_string (fst kv) @ '': '' @ json_encode_string (snd kv)"

definition json_dumps :: "(string \<times> string) list \<Rightarrow> string" where
  "json_dumps entry = ''{'' @ str_join '', '' (map json_member entry) @ ''}''"

text \<open>
  \<open>json.loads\<close> on an object whose values are strings, giving the members in the order
  of the text. A control character inside a string is refused, as the strict decoder
  does. Of the \<open>\uXXXX\<close> escapes only those below 128 are decoded, which are all that
  \<open>json_dumps\<close> writes. The member loop runs on fuel, the length of the text.
\<close>

definition hex_value :: "char \<Rightarrow> nat option" where
  "hex_value c =
     map_of (zip ''0123456789abcdefABCDEF''
                 [0, 1, 2, 3, 4, 5, 6, 7, 8, 9, 10, 11, 12, 13, 14, 15, 10, 11, 12, 13, 14, 15]) c"

definition simple_escape :: "char \<Rightarrow> char option" where
  "simple_escape e =
     map_of [(quote_char, quote_char), (backslash_char, backslash_char), (CHR ''/'', CHR ''/''),
             (CHR ''b'', CHR 0x08), (CHR ''f'', CHR 0x0C), (CHR ''n'', CHR 0x0A),
             (CHR ''r'', CHR 0x0D), (CHR ''t'', CHR 0x09)] e"

definition hex4 :: "char \<Rightarrow> char \<Rightarrow> char \<Rightarrow> char \<Rightarrow> nat option" where
  "hex4 h1 h2 h3 h4 =
     (case (hex_value h1, hex_value h2, hex_value h3, hex_value h4) of
        (Some a, Some b, Some c, Some d) \<Rightarrow> Some (((a * 16 + b) * 16 + c) * 16 + d)
      | _ \<Rightarrow> None)"

definition cons_result :: "char \<Rightarrow> (string \<times> string) option \<Rightarrow> (string \<times> string) option" where
  "cons_result c r = (case r of None \<Rightarrow> None | Some (s, rest) \<Rightarrow> Some (c # s, rest))"

fun scan_string :: "string \<Rightarrow> (string \<times> string) option" where
  "scan_string [] = None"
| "scan_string (c # cs) =
     (if c = quote_char then Some ([], cs)
      else if c = backslash_char then
        (case cs of
           [] \<Rightarrow> None
         | e # cs1 \<Rightarrow>
             if e = CHR ''u'' then
               (case cs1 of
                  h1 # h2 # h3 # h4 # cs2 \<Rightarrow>
                    (case hex4 h1 h2 h3 h4 of
                       None \<Rightarrow> None
                     | Some v \<Rightarrow> if v < 128 then cons_result (char_of v) (scan_string cs2) else None)
                | _ \<Rightarrow> None)
             else
               (case simple_escape e of
                  None \<Rightarrow> None
                | Some d \<Rightarrow> cons_result d (scan_string cs1)))
      else if (of_char c :: nat) < 32 then None
      else cons_result c (scan_string cs))"

definition parse_string :: "string \<Rightarrow> (string \<times> string) option" where
  "parse_string s = (case s of [] \<Rightarrow> None | c # cs \<Rightarrow> if c = quote_char then scan_string cs else None)"

definition json_space :: "char \<Rightarrow> bool" where
  "json_space c = (c \<in> set [CHR '' '', CHR 0x09, CHR 0x0A, CHR 0x0D])"

definition skip_ws :: "string \<Rightarrow> string" where
  "skip_ws s = dropWhile json_space s"

fun parse_members :: "nat \<Rightarrow> string \<Rightarrow> ((string \<times> string) list \<times> string) option" where
  "parse_members 0 s = None"
| "parse_members (Suc fuel) s =
     (case parse_string (skip_ws s) of
        None \<Rightarrow> None
      | Some (k, s1) \<Rightarrow>
          (case skip_ws s1 of
             [] \<Rightarrow> None
           | c1 # s2 \<Rightarrow>
               if c1 \<noteq> CHR '':'' then None
               else
                 (case parse_string (skip_ws s2) of
                    None \<Rightarrow> None
                  | Some (v, s3) \<Rightarrow>
                      (case skip_ws s3 of
                         [] \<Rightarrow> None
                       | c3 # s4 \<Rightarrow>
                           if c3 = CHR '','' then
                             (case parse_members fuel s4 of
                                None \<Rightarrow> None
                              | Some (ms, rest) \<Rightarrow> Some ((k, v) # ms, rest))
                           else if c3 = CHR ''}'' then Some ([(k, v)], s4)
                           else None))))"

definition json_loads :: "string \<Rightarrow> (string \<times> string) list option" where
  "json_loads s =
     (case skip_ws s of
        [] \<Rightarrow> None
      | c # s1 \<Rightarrow>
          if c \<noteq> CHR ''{'' then None
          else
            (case skip_ws s1 of
               [] \<Rightarrow> None
             | c2 # s2 \<Rightarrow>
                 if c2 = CHR ''}'' then (if skip_ws s2 = [] then Some [] else None)
                 else
                   (case parse_members (length s) s1 of
                      None \<Rightarrow> None
                    | Some (ms, rest) \<Rightarrow> if skip_ws rest = [] then Some ms else None)))"

text \<open>
  The files: a path has no file yet, holds a text, or cannot be written.
  \<open>open(path, "a")\<close> followed by \<open>write\<close> raises on a path that cannot be written.
\<close>

datatype file_state = Absent | Contents string | Unwritable

definition file_text :: "file_state \<Rightarrow> string" where
  "file_text f = (case f of Contents c \<Rightarrow> c | _ \<Rightarrow> [])"

definition append_to_file ::
  "(string \<Rightarrow> file_state) \<Rightarrow> string \<Rightarrow> string \<Rightarrow> py_exception + (string \<Rightarrow> file_state)" where
  "append_to_file fs path data =
     (case fs path of
        Unwritable \<Rightarrow> Inl (PyException ''PermissionError'' path)
      | Absent \<Rightarrow> Inr (fs(path := Contents data))
      | Contents c \<Rightarrow> Inr (fs(path := Contents (c @ data))))"

record agent_action =
  action_tool :: string
  action_tool_input :: string
  action_log :: string

record agent_finish =
  return_values :: "(string \<times> string) list"
  finish_log :: string

record eco_agent_logger =
  log_file :: string

text \<open>\<open>_write_log\<close>: an exception of the write is logged to the console and dropped.\<close>

definition write_log ::
  "eco_agent_logger \<Rightarrow> (string \<Rightarrow> file_state) \<Rightarrow> (string \<times> string) list \<Rightarrow> (string \<Rightarrow> file_state)" where
  "write_log self fs log_entry =
     (case append_to_file fs (log_file self) (json_dumps log_entry @ [newline_char]) of
        Inr fs' \<Rightarrow> fs'
      | Inl e \<Rightarrow> fs)"

definition action_entry :: "datetime \<Rightarrow> agent_action \<Rightarrow> (string \<times> string) list" where
  "action_entry now action =
     [(''timestamp'', isoformat now),
      (''type'', ''agent_action''),
      (''tool'', action_tool action),
      (''tool_input'', action_tool_input action),
      (''log'', action_log action)]"

definition on_agent_action ::
  "datetime \<Rightarrow> eco_agent_logger \<Rightarrow> (string \<Rightarrow> file_state) \<Rightarrow> agent_action \<Rightarrow> (string \<Rightarrow> file_state)" where
  "on_agent_action now self fs action = write_log self fs (action_entry now action)"

definition finish_entry :: "datetime \<Rightarrow> agent_finish \<Rightarrow> (string \<times> string) list" where
  "finish_entry now finish =
     [(''timestamp'', isoformat now),
      (''type'', ''agent_finish''),
      (''output'', (case map_of (return_values finish) ''output'' of Some v \<Rightarrow> v | None \<Rightarrow> [])),
      (''log'', finish_log finish)]"

definition on_agent_finish ::
  "datetime \<Rightarrow> eco_agent_logger \<Rightarrow> (string \<Rightarrow> file_state) \<Rightarrow> agent_finish \<Rightarrow> (string \<Rightarrow> file_state)" where
  "on_agent_finish now self fs finish = write_log self fs (finish_entry now finish)"

text \<open>
  The shape of an ISO-8601 timestamp as \<open>isoformat\<close> writes it:
  \<open>YYYY-MM-DDTHH:MM:SS\<close>, with \<open>.ffffff\<close> after it or not.
\<close>

fun take_digits :: "nat \<Rightarrow> string \<Rightarrow> string option" where
  "take_digits 0 s = Some s"
| "take_digits (Suc n) [] = None"
| "take_digits (Suc n) (c # cs) = (if is_digit c then take_digits n cs else None)"

definition expect_char :: "char \<Rightarrow> string \<Rightarrow> string option" where
  "expect_char c s = (case s of [] \<Rightarrow> None | d # r \<Rightarrow> if d = c then Some r else None)"

definition date_part :: "string \<Rightarrow> string option" where
  "date_part s =
     Option.bind (take_digits 4 s) (\<lambda>s1.
     Option.bind (expect_char (CHR ''-'') s1) (\<lambda>s2.
     Option.bind (take_digits 2 s2) (\<lambda>s3.
     Option.bind (expect_char (CHR ''-'') s3) (take_digits 2))))"

definition time_part :: "string \<Rightarrow> string option" where
  "time_part s =
     Option.bind (take_digits 2 s) (\<lambda>s1.
     Option.bind (expect_char (CHR '':'') s1) (\<lambda>s2.
     Option.bind (take_digits 2 s2) (\<lambda>s3.
     Option.bind (expect_char (CHR '':'') s3) (take_digits 2))))"

definition iso8601 :: "string \<Rightarrow> bool" where
  "iso8601 s =
     (case Option.bind (Option.bind (date_part s) (expect_char (CHR ''T''))) time_part of
        None \<Rightarrow> False
      | Some [] \<Rightarrow> True
      | Some (c # fraction) \<Rightarrow> c = CHR ''.'' \<and> take_digits 6 fraction = Some [])"

subsection \<open>EcoAgent\<close>

record agent_stats =
  total_interactions :: int
  tools_used :: "(string \<times> int) list"
  successful_interactions :: int
  errors :: int

text \<open>
  A \<open>Tool\<close> of LangChain holds a name, a function and a description, and calls its function
  with one positional argument, the input text of the tool: \<open>func(tool_input)\<close>. The
  functions of this repository take one parameter or two; a function of two parameters
  keeps its name and the name of its second parameter, which Python puts in the message of
  the \<open>TypeError\<close> that a call with one argument raises.
\<close>

datatype tool_function =
  OneParameter "datetime \<Rightarrow> string \<Rightarrow> py_exception + string"
| TwoParameters string string "datetime \<Rightarrow> string \<Rightarrow> string \<Rightarrow> py_exception + string"

record tool =
  tool_name :: string
  func :: tool_function
  tool_description :: string

definition missing_argument :: "string \<Rightarrow> string \<Rightarrow> py_exception" where
  "missing_argument function_name parameter =
     PyException ''TypeError''
       (function_name @ ''() missing 1 required positional argument: '' @
        [CHR 0x27] @ parameter @ [CHR 0x27])"

definition call_with_one_argument ::
  "datetime \<Rightarrow> tool_function \<Rightarrow> string \<Rightarrow> py_exception + string" where
  "call_with_one_argument now f argument =
     (case f of
        OneParameter g \<Rightarrow> g now argument
      | TwoParameters function_name parameter g \<Rightarrow> Inl (missing_argument function_name parameter))"

definition run_tool :: "datetime \<Rightarrow> tool \<Rightarrow> string \<Rightarrow> py_exception + string" where
  "run_tool now t tool_input = call_with_one_argument now (func t) tool_input"

text \<open>
  The agent executor built by LangChain is external: \<open>agent\<close> holds what its \<open>run\<close>
  returns or raises on a prompt. \<open>logger\<close> is the \<open>EcoAgentLogger\<close> that \<open>__init__\<close>
  builds.
\<close>

record eco_agent =
  agent_use_simulated_model :: bool
  agent_rag_pipeline :: "rag_pipeline option"
  tools :: "tool list"
  agent :: "(string \<Rightarrow> py_exception + string) option"
  logger :: eco_agent_logger
  stats :: agent_stats

record query_result =
  response :: string
  timestamp :: string
  user_input :: string
  agent_status :: string
  tools_available :: "int option"
  error :: "string option"
  stats_copy :: agent_stats

definition create_contextual_prompt :: "string \<Rightarrow> string" where
  "create_contextual_prompt inp =
     [CHR 0x0A] @
     ''Eres EcoAgent, un asistente inteligente especializado en devoluciones de productos.'' @
     [CHR 0x0A, CHR 0x0A] @
     ''CONTEXTO:'' @ [CHR 0x0A] @
     ''- Trabajas para EcoTech, una empresa eco-friendly'' @ [CHR 0x0A] @
     ''- Tienes acceso a herramientas para verificar elegibilidad y generar etiquetas'' @ [CHR 0x0A] @
     ''- Puedes consultar pol'' @ i_acute @ ''ticas y procedimientos usando RAG'' @ [CHR 0x0A] @
     ''- Siempre eres amable, profesional y '' @ u_acute @ ''til'' @ [CHR 0x0A, CHR 0x0A] @
     ''HERRAMIENTAS DISPONIBLES:'' @ [CHR 0x0A] @
     ''1. Verificar Elegibilidad de Producto: Para verificar si un producto puede devolverse'' @ [CHR 0x0A] @
     ''2. Generar Etiqueta de Devoluci'' @ o_acute @ ''n: Para crear etiquetas de devoluci'' @ o_acute @ ''n'' @ [CHR 0x0A] @
     ''3. Consultar Pol'' @ i_acute @ ''ticas de Devoluci'' @ o_acute @ ''n: Para obtener informaci'' @ o_acute @ ''n sobre pol'' @ i_acute @ ''ticas'' @ [CHR 0x0A] @
     ''4. Consulta RAG: Para consultas generales sobre la empresa'' @ [CHR 0x0A, CHR 0x0A] @
     ''INSTRUCCIONES:'' @ [CHR 0x0A] @
     ''- Responde de manera clara y profesional'' @ [CHR 0x0A] @
     ''- Usa las herramientas cuando sea apropiado'' @ [CHR 0x0A] @
     ''- Si el usuario pregunta sobre devoluciones, verifica elegibilidad primero'' @ [CHR 0x0A] @
     ''- Si necesita una etiqueta, genera una despu'' @ e_acute @ ''s de verificar elegibilidad'' @ [CHR 0x0A] @
     ''- Siempre explica el proceso paso a paso'' @ [CHR 0x0A, CHR 0x0A] @
     ''CONSULTA DEL USUARIO: '' @ inp @ [CHR 0x0A, CHR 0x0A] @
     ''Responde de manera '' @ u_acute @ ''til y profesional:'' @ [CHR 0x0A]"

definition initial_stats :: agent_stats where
  "initial_stats =
     \<lparr>total_interactions = 0, tools_used = [], successful_interactions = 0, errors = 0\<rparr>"

text \<open>
  \<open>__init__\<close>, with the key that the argument or the environment gives: no component is
  built yet, the logger writes to \<open>logs/interacciones.log\<close>, the counters are zero.
\<close>

definition init_eco_agent :: "string option \<Rightarrow> eco_agent" where
  "init_eco_agent openai_api_key =
     \<lparr>agent_use_simulated_model = (openai_api_key = None \<or> openai_api_key = Some []),
      agent_rag_pipeline = None,
      tools = [],
      agent = None,
      logger = \<lparr>log_file = ''logs/interacciones.log''\<rparr>,
      stats = initial_stats\<rparr>"

definition reset_stats :: "eco_agent \<Rightarrow> eco_agent" where
  "reset_stats self = self\<lparr>stats := initial_stats\<rparr>"

text \<open>
  \<open>process_query\<close>: the body of the \<open>try\<close> counts the interaction, runs the agent (the
  one step that can raise) and counts a success; the handler counts an error. The
  updated agent is returned beside the result.
\<close>

definition agent_run :: "eco_agent \<Rightarrow> string \<Rightarrow> py_exception + string" where
  "agent_run self contextual_prompt =
     (case agent self of
        Some run \<Rightarrow> run contextual_prompt
      | None \<Rightarrow> Inr (''Lo siento, el agente no est'' @ a_acute @ '' disponible en este momento.''))"

definition process_query :: "datetime \<Rightarrow> eco_agent \<Rightarrow> string \<Rightarrow> query_result \<times> eco_agent" where
  "process_query now self inp =
     (let self1 = self\<lparr>stats := (stats self)\<lparr>total_interactions :=
                    total_interactions (stats self) + 1\<rparr>\<rparr>;
          contextual_prompt = create_contextual_prompt inp
      in case agent_run self1 contextual_prompt of
           Inr answer \<Rightarrow>
             (let self2 = self1\<lparr>stats := (stats self1)\<lparr>successful_interactions :=
                            successful_interactions (stats self1) + 1\<rparr>\<rparr>
              in (\<lparr>response = answer,
                   timestamp = isoformat now,
                   user_input = inp,
                   agent_status = ''success'',
                   tools_available = Some (int (length (tools self2))),
                   error = None,
                   stats_copy = stats self2\<rparr>, self2))
         | Inl e \<Rightarrow>
             (let self2 = self1\<lparr>stats := (stats self1)\<lparr>errors := errors (stats self1) + 1\<rparr>\<rparr>
              in (\<lparr>response = ''Lo siento, ocurri'' @ o_acute @
                                '' un error al procesar tu consulta: '' @ exc_str e,
                   timestamp = isoformat now,
                   user_input = inp,
                   agent_status = ''error'',
                   tools_available = None,
                   error = Some (exc_str e),
                   stats_copy = stats self2\<rparr>, self2)))"

text \<open>A session: the queries are processed one after the other; the agents after each call.\<close>

fun process_queries :: "eco_agent \<Rightarrow> (datetime \<times> string) list \<Rightarrow> eco_agent list" where
  "process_queries self [] = []"
| "process_queries self ((now, inp) # calls) =
     (let self' = snd (process_query now self inp) in self' # process_queries self' calls)"

text \<open>
  \<open>get_stats\<close>: \<open>/\<close> on two ints is true division, which raises \<open>ZeroDivisionError\<close> on a
  zero divisor; the quotient is modelled exactly, as a rational (the float is its
  rounding).
\<close>

definition true_div :: "int \<Rightarrow> int \<Rightarrow> py_exception + rat" where
  "true_div a b =
     (if b = 0 then Inl (PyException ''ZeroDivisionError'' ''division by zero'')
      else Inr (of_int a / of_int b))"

record stats_report =
  report_total_interactions :: int
  report_successful_interactions :: int
  error_rate :: rat
  report_tools_available :: int
  rag_available :: bool
  model_type :: string

definition get_stats :: "eco_agent \<Rightarrow> py_exception + stats_report" where
  "get_stats self =
     (case true_div (errors (stats self)) (max (total_interactions (stats self)) 1) of
        Inl e \<Rightarrow> Inl e
      | Inr rate \<Rightarrow>
          Inr \<lparr>report_total_interactions = total_interactions (stats self),
               report_successful_interactions = successful_interactions (stats self),
               error_rate = rate,
               report_tools_available = int (length (tools self)),
               rag_available = (agent_rag_pipeline self \<noteq> None),
               model_type = (if agent_use_simulated_model self then ''simulated'' else ''openai'')\<rparr>)"

text \<open>\<open>rag_query\<close>, the function of the tool \<open>Consulta RAG\<close>, local to \<open>create_tools\<close>.\<close>

definition rag_query :: "(string \<Rightarrow> string) \<Rightarrow> eco_agent \<Rightarrow> string \<Rightarrow> string" where
  "rag_query str_lower self q =
     (case agent_rag_pipeline self of
        None \<Rightarrow>
          ''Error en consulta RAG: '' @
          [CHR 0x27] @ ''NoneType'' @ [CHR 0x27] @ '' object has no attribute '' @
          [CHR 0x27] @ ''query'' @ [CHR 0x27]
      | Some pipeline \<Rightarrow>
          (case query str_lower pipeline q of
             Inr r \<Rightarrow> result r
           | Inl e \<Rightarrow> ''Error en consulta RAG: '' @ exc_str e))"

text \<open>
  \<open>create_tools\<close>: the four tools. The first two wrap functions of \<open>tools.py\<close> that take
  two parameters, \<open>verificar_elegibilidad_producto(producto_id, fecha_compra)\<close> and
  \<open>generar_etiqueta_devolucion(producto_id, cliente_id)\<close>; the third wraps
  \<open>consultar_politicas_devolucion(categoria = None)\<close> and the fourth \<open>rag_query(query)\<close>.
  The label generator and the policy text are given.
\<close>

definition description_indent :: string where
  "description_indent = [CHR 0x0A] @ replicate 20 (CHR '' '')"

definition eligibility_tool :: tool where
  "eligibility_tool =
     \<lparr>tool_name = ''Verificar Elegibilidad de Producto'',
      func = TwoParameters ''verificar_elegibilidad_producto'' ''fecha_compra''
               verificar_elegibilidad_producto,
      tool_description =
        ''Verifica si un producto puede devolverse seg'' @ u_acute @
        ''n su ID y fecha de compra.'' @ description_indent @
        ''Par'' @ a_acute @
        ''metros: producto_id (string), fecha_compra (string en formato YYYY-MM-DD)'' @
        description_indent @
        ''Ejemplo: Verificar Elegibilidad de Producto PROD001 2024-10-01''\<rparr>"

definition create_tools ::
  "(string \<Rightarrow> string) \<Rightarrow>
   (datetime \<Rightarrow> string \<Rightarrow> string \<Rightarrow> py_exception + string) \<Rightarrow>
   (datetime \<Rightarrow> string \<Rightarrow> py_exception + string) \<Rightarrow> eco_agent \<Rightarrow> tool list" where
  "create_tools str_lower generar_etiqueta_devolucion consultar_politicas_devolucion self =
     [eligibility_tool,
      \<lparr>tool_name = ''Generar Etiqueta de Devoluci'' @ o_acute @ ''n'',
       func = TwoParameters ''generar_etiqueta_devolucion'' ''cliente_id''
                generar_etiqueta_devolucion,
       tool_description =
         ''Genera una etiqueta de devoluci'' @ o_acute @
         ''n para un producto y cliente espec'' @ i_acute @ ''ficos.'' @ description_indent @
         ''Par'' @ a_acute @ ''metros: producto_id (string), cliente_id (string)'' @
         description_indent @
         ''Ejemplo: Generar Etiqueta de Devoluci'' @ o_acute @ ''n PROD001 CLI001''\<rparr>,
      \<lparr>tool_name = ''Consultar Pol'' @ i_acute @ ''ticas de Devoluci'' @ o_acute @ ''n'',
       func = OneParameter consultar_politicas_devolucion,
       tool_description =
         ''Consulta las pol'' @ i_acute @ ''ticas de devoluci'' @ o_acute @
         ''n seg'' @ u_acute @ ''n la categor'' @ i_acute @ ''a del producto.'' @
         description_indent @
         ''Par'' @ a_acute @ ''metros: categoria (string opcional)'' @ description_indent @
         ''Ejemplo: Consultar Pol'' @ i_acute @ ''ticas de Devoluci'' @ o_acute @
         ''n Electr'' @ o_acute @ ''nicos''\<rparr>,
      \<lparr>tool_name = ''Consulta RAG'',
       func = OneParameter (\<lambda>now q. Inr (rag_query str_lower self q)),
       tool_description =
         ''Consulta informaci'' @ o_acute @ ''n general sobre pol'' @ i_acute @
         ''ticas, procedimientos y datos de la empresa.'' @ description_indent @
         ''Par'' @ a_acute @ ''metros: query (string)'' @ description_indent @
         ''Ejemplo: Consulta RAG '' @ inverted_question @ ''Cu'' @ a_acute @
         ''les son los procedimientos de calidad?''\<rparr>]"

subsection \<open>create\_agent and the callbacks\<close>


record agent_options =
  agent_type :: string
  verbose :: bool
  handle_parsing_errors :: bool
  max_iterations :: int
  early_stopping_method :: string
  callbacks :: "eco_agent_logger list"

definition create_agent_options :: agent_options where
  "create_agent_options =
     \<lparr>agent_type = ''zero-shot-react-description'',
      verbose = True,
      handle_parsing_errors = True,
      max_iterations = 5,
      early_stopping_method = ''generate'',
      callbacks = []\<rparr>"


text \<open>
  \<open>process_query\<close> calls \<open>self.agent.run(contextual_prompt)\<close>: the prompt alone, no
  \<open>callbacks\<close>. The handlers of a run are those of the constructor followed by those of
  the call; \<open>self.logger\<close> is read nowhere after \<open>__init__\<close> has assigned it.
\<close>

definition run_callbacks :: "eco_agent \<Rightarrow> eco_agent_logger list" where
  "run_callbacks self = []"

definition registered_handlers :: "eco_agent \<Rightarrow> eco_agent_logger list" where
  "registered_handlers self = callbacks create_agent_options @ run_callbacks self"

text \<open>
  What a run of the executor reports: the actions it takes, each a capability invoked
  with its input, and the final answer. LangChain calls \<open>on_agent_action\<close> of every
  registered handler once for each action, and \<open>on_agent_finish\<close> of every registered
  handler once for the final answer. Each report carries the time of the call.
\<close>

datatype agent_event = AgentActionEvent agent_action | AgentFinishEvent agent_finish

definition handle_event ::
  "datetime \<Rightarrow> eco_agent_logger \<Rightarrow> (string \<Rightarrow> file_state) \<Rightarrow> agent_event \<Rightarrow> (string \<Rightarrow> file_state)" where
  "handle_event now handler fs ev =
     (case ev of
        AgentActionEvent action \<Rightarrow> on_agent_action now handler fs action
      | AgentFinishEvent finish \<Rightarrow> on_agent_finish now handler fs finish)"

fun deliver ::
  "eco_agent_logger list \<Rightarrow> (string \<Rightarrow> file_state) \<Rightarrow> (datetime \<times> agent_event) list \<Rightarrow>
   (string \<Rightarrow> file_state)" where
  "deliver handlers fs [] = fs"
| "deliver handlers fs ((now, ev) # evs) =
     deliver handlers (foldl (\<lambda>fs' handler. handle_event now handler fs' ev) fs handlers) evs"

text \<open>The lines of a text: the number of newline characters in it.\<close>

definition line_count :: "string \<Rightarrow> nat" where
  "line_count s = length (filter (\<lambda>c. c = newline_char) s)"

subsection \<open>The reasoning loop of the Orchestrator\<close>

text \<open>
  Modelled from the spec: the reasoning loop of the Orchestrator, which the repository
  leaves to LangChain's agent executor and which is not among the sources. The
  specification gives it as a state machine (4.4) over a context (3), with the structured
  decision of the reasoning step that its design notes (9) recommend:
  \<open>Invoke\<close> a capability with arguments, \<open>Final\<close> answer, or \<open>ParseError\<close>. The decisions
  carry the rationale that the events record; a \<open>ParseError\<close> carries the output that could
  not be parsed. The context holds, beside the fields of the data model that the loop
  reads and writes, the results folded back into it, the last capability result, and
  whether the previous reasoning step failed to parse.
\<close>

datatype decision = Invoke string string string | Final string string | ParseError string

datatype event = Action string string string | Finish string string






















section \<open>Properties and example values\<close>

text \<open>The counters agree: every interaction counted is a success or an error.\<close>

definition stats_consistent :: "agent_stats \<Rightarrow> bool" where
  "stats_consistent st = (total_interactions st = successful_interactions st + errors st)"

definition failing_agent :: eco_agent where
  "failing_agent =
     \<lparr>agent_use_simulated_model = True, agent_rag_pipeline = None, tools = [],
      agent = Some (\<lambda>prompt. Inl (PyException ''RuntimeError'' ''boom'')),
      logger = \<lparr>log_file = ''logs/interacciones.log''\<rparr>,
      stats = \<lparr>total_interactions = 7, tools_used = [], successful_interactions = 3, errors = 1\<rparr>\<rparr>"

definition noon :: datetime where
  "noon = \<lparr>year = 2024, month = 12, day = 1, hour = 12, minute = 0, second = 0, microsecond = 0\<rparr>"

definition doc_returns :: document where
  "doc_returns = \<lparr>page_content = ''Returns: a return is accepted. Return it soon.'',
                   metadata = [(''source'', ''knowledge_base/a'')]\<rparr>"

definition doc_support :: document where
  "doc_support = \<lparr>page_content = ''Support answers by email.'',
                   metadata = [(''source'', ''knowledge_base/b'')]\<rparr>"

definition doc_policy :: document where
  "doc_policy = \<lparr>page_content = ''The return policy.'',
                  metadata = [(''source'', ''knowledge_base/c'')]\<rparr>"

definition corpus :: "document list" where
  "corpus = [doc_support, doc_policy, doc_returns, doc_policy]"

text \<open>
  A pipeline on the embedding backend whose search fails at query time, and a
  pipeline whose chain answers with the \<open>SimulatedLLM\<close> over a grounding prompt.
\<close>

definition failing_search :: "string \<Rightarrow> int \<Rightarrow> py_exception + document list" where
  "failing_search q k = Inl (PyException ''ConnectionError'' ''backend unavailable'')"

definition broken_pipeline :: rag_pipeline where
  "broken_pipeline =
     \<lparr>use_simulated_model = False,
      embeddings = Some (OpenAIEmbeddings ''key''),
      vectorstore = Some (FAISS failing_search),
      retriever = Some (FAISS failing_search),
      qa_chain = Some (RetrievalQA (\<lambda>q. case failing_search q 4 of
                                           Inl e \<Rightarrow> Inl e
                                         | Inr ds \<Rightarrow> Inr \<lparr>result = ''answer'', source_documents = ds\<rparr>))\<rparr>"

definition simulated_pipeline :: rag_pipeline where
  "simulated_pipeline =
     \<lparr>use_simulated_model = True,
      embeddings = None,
      vectorstore = Some (SimulatedVectorStore corpus),
      retriever = Some (SimulatedVectorStore corpus),
      qa_chain = Some (RetrievalQA (\<lambda>q.
        Inr \<lparr>result = simulated_llm ascii_lower (''Use the context. Question: '' @ q),
             source_documents = similarity_search ascii_lower ascii_split corpus q 4\<rparr>))\<rparr>"

text \<open>
  An agent with the four tools whose executor, on every prompt, invokes the first of
  them, the eligibility tool, on the input \<open>PROD999 2024-10-01\<close>: an exception of the
  tool leaves the run of the executor.
\<close>

definition label_text :: "datetime \<Rightarrow> string \<Rightarrow> string \<Rightarrow> py_exception + string" where
  "label_text now product customer = Inr ''ETIQUETA''"

definition policy_text :: "datetime \<Rightarrow> string \<Rightarrow> py_exception + string" where
  "policy_text now category = Inr ''POLITICAS''"

definition equipped_agent :: eco_agent where
  "equipped_agent =
     (init_eco_agent None)
       \<lparr>agent_rag_pipeline := Some simulated_pipeline,
        tools := create_tools ascii_lower label_text policy_text
                   ((init_eco_agent None)\<lparr>agent_rag_pipeline := Some simulated_pipeline\<rparr>)\<rparr>"

definition tool_calling_agent :: eco_agent where
  "tool_calling_agent =
     equipped_agent
       \<lparr>agent := Some (\<lambda>prompt. run_tool noon (hd (tools equipped_agent)) ''PROD999 2024-10-01'')\<rparr>"

definition unknown_product_question :: string where
  "unknown_product_question = ''Puedo devolver el producto PROD999 comprado el 2024-10-01?''"

text \<open>An action with a quote, a newline and a control character in its fields.\<close>

definition sample_action :: agent_action where
  "sample_action =
     \<lparr>action_tool = ''Verificar Elegibilidad de Producto'',
      action_tool_input = ''PROD001 '' @ [quote_char] @ ''2024-10-01'' @ [quote_char],
      action_log = ''Thought: check'' @ [CHR 0x0A, CHR 0x01, backslash_char] @ ''Action: verify''\<rparr>"

definition sample_finish :: agent_finish where
  "sample_finish =
     \<lparr>return_values = [(''output'', ''El producto no es elegible.'')],
      finish_log = ''Final Answer''\<rparr>"

definition sample_logger :: eco_agent_logger where
  "sample_logger = \<lparr>log_file = ''logs/interacciones.log''\<rparr>"

definition empty_disk :: "string \<Rightarrow> file_state" where
  "empty_disk path = Absent"

definition locked_disk :: "string \<Rightarrow> file_state" where
  "locked_disk path = Unwritable"

text \<open>What a run reports that takes one action and gives a final answer.\<close>

definition sample_events :: "(datetime \<times> agent_event) list" where
  "sample_events = [(noon, AgentActionEvent sample_action), (noon, AgentFinishEvent sample_finish)]"





section \<open>Theorems\<close>

subsection \<open>Lemmas on strings\<close>

lemma str_contains_empty: "str_contains s []"
  by (cases s) simp_all

lemma str_contains_prefix: "prefix sub s \<Longrightarrow> str_contains s sub"
  by (cases s) simp_all

lemma str_contains_append: "str_contains (a @ b @ c) b"
  by (induction a) (simp_all add: str_contains_prefix)

lemma str_count_absent: "\<not> str_contains s sub \<Longrightarrow> str_count s sub = 0"
proof (induction s sub rule: str_count.induct)
  case (1 s sub)
  have ne: "sub \<noteq> []" using "1.prems" str_contains_empty by blast
  show ?case
  proof (cases "length s < length sub")
    case True
    then show ?thesis using ne by (subst str_count.simps) simp
  next
    case False
    then obtain c cs where s: "s = c # cs" using ne by (cases s) auto
    have np: "\<not> prefix sub s" using "1.prems" str_contains_prefix by blast
    have "\<not> str_contains (tl s) sub" using "1.prems" s by simp
    then have "str_count (tl s) sub = 0" using "1.IH"(2) ne False np by simp
    then show ?thesis using ne False np by (subst str_count.simps) simp
  qed
qed

subsection \<open>Lemmas on the lexical retrieval\<close>

lemma score_keywords_sum:
  "score_keywords content kws score = score + (\<Sum>t\<leftarrow>kws. int (str_count content t))"
  by (induction kws arbitrary: score) (simp_all add: str_count_absent)

lemma score_documents_filter:
  "score_documents str_lower str_split (str_lower q) docs scored =
     scored @ map (\<lambda>d. (spec_score str_lower str_split q d, d))
                (filter (\<lambda>d. 0 < spec_score str_lower str_split q d) docs)"
  by (induction docs arbitrary: scored)
     (simp_all add: Let_def score_keywords_sum spec_score_def query_terms_def)

lemma insort_key_map:
  "insort_key f (g x) (map g ys) = map g (insort_key (\<lambda>y. f (g y)) x ys)"
  by (induction ys) simp_all

lemma sort_key_map: "sort_key f (map g xs) = map g (sort_key (\<lambda>y. f (g y)) xs)"
  by (induction xs) (simp_all add: insort_key_map)

lemma list_sort_reverse_map:
  "list_sort_reverse f (map g xs) = map g (list_sort_reverse (\<lambda>y. f (g y)) xs)"
  by (simp add: list_sort_reverse_def sort_key_map rev_map)

lemma mset_list_sort_reverse: "mset (list_sort_reverse f xs) = mset xs"
  by (simp add: list_sort_reverse_def)

lemma sorted_list_sort_reverse: "sorted_wrt (\<lambda>a b. f b \<le> f a) (list_sort_reverse f xs)"
proof -
  have "sorted (map f (sort_key f (rev xs)))" by (rule sorted_sort_key)
  then have "sorted_wrt (\<lambda>a b. f a \<le> f b) (sort_key f (rev xs))"
    by (simp add: sorted_map)
  then show ?thesis
    by (simp add: list_sort_reverse_def sorted_wrt_rev)
qed

lemma stable_list_sort_reverse:
  "filter (\<lambda>y. f y = s) (list_sort_reverse f xs) = filter (\<lambda>y. f y = s) xs"
proof -
  have "filter (\<lambda>y. f y = s) (sort_key f (rev xs)) = filter (\<lambda>y. f y = s) (rev xs)"
    by (rule sort_key_stable)
  then show ?thesis
    by (simp add: list_sort_reverse_def rev_filter [symmetric])
qed

lemma similarity_search_ranked:
  "similarity_search str_lower str_split docs q k =
     slice_to (list_sort_reverse (spec_score str_lower str_split q)
                 (filter (\<lambda>d. 0 < spec_score str_lower str_split q d) docs)) k"
  by (simp add: similarity_search_def Let_def score_documents_filter list_sort_reverse_map
      slice_to_def take_map o_def)

lemma count_sum_absent:
  "\<forall>t \<in> set ts. \<not> str_contains content t \<Longrightarrow> (\<Sum>t\<leftarrow>ts. int (str_count content t)) = 0"
  by (induction ts) (simp_all add: str_count_absent)

lemma spec_score_absent:
  "\<forall>t \<in> set (query_terms str_lower str_split q). \<not> str_contains (str_lower (page_content d)) t \<Longrightarrow>
   spec_score str_lower str_split q d = 0"
  by (simp add: spec_score_def count_sum_absent)

subsection \<open>Shared lemmas on the interaction counters\<close>

lemma process_query_stats:
  "stats (snd (process_query now self inp)) =
     (case agent_run (self\<lparr>stats := (stats self)\<lparr>total_interactions :=
                    total_interactions (stats self) + 1\<rparr>\<rparr>) (create_contextual_prompt inp) of
        Inr answer \<Rightarrow> (stats self)\<lparr>total_interactions := total_interactions (stats self) + 1,
                        successful_interactions := successful_interactions (stats self) + 1\<rparr>
      | Inl e \<Rightarrow> (stats self)\<lparr>total_interactions := total_interactions (stats self) + 1,
                        errors := errors (stats self) + 1\<rparr>)"
  by (simp add: process_query_def Let_def split: sum.splits)

lemma process_query_step:
  "total_interactions (stats (snd (process_query now self inp))) =
     total_interactions (stats self) + 1 \<and>
   successful_interactions (stats (snd (process_query now self inp))) +
     errors (stats (snd (process_query now self inp))) =
     successful_interactions (stats self) + errors (stats self) + 1"
  by (simp add: process_query_stats split: sum.splits)

lemma process_queries_length: "length (process_queries self calls) = length calls"
  by (induction calls arbitrary: self) (auto simp: Let_def)

lemma process_queries_invariant:
  "stats_consistent (stats self) \<Longrightarrow> i < length calls \<Longrightarrow>
   stats_consistent (stats (process_queries self calls ! i)) \<and>
   total_interactions (stats (process_queries self calls ! i)) =
     total_interactions (stats self) + int i + 1"
proof (induction calls arbitrary: self i)
  case Nil
  then show ?case by simp
next
  case (Cons c calls)
  obtain now inp where c: "c = (now, inp)" by (cases c)
  let ?s = "snd (process_query now self inp)"
  have step: "stats_consistent (stats ?s)"
    "total_interactions (stats ?s) = total_interactions (stats self) + 1"
    using Cons.prems(1) process_query_step [of now self inp]
    by (simp_all add: stats_consistent_def)
  show ?case
  proof (cases i)
    case 0
    then show ?thesis using step by (simp add: c Let_def)
  next
    case (Suc j)
    then have "j < length calls" using Cons.prems(2) by simp
    from Cons.IH [OF step(1) this] show ?thesis
      using step(2) Suc by (simp add: c Let_def)
  qed
qed

subsection \<open>Lemmas on the eligibility check\<close>

lemma str_int_30: "str_int 30 = ''30''"
  by code_simp

lemma prod001: "productos_db ''PROD001'' =
    Some \<lparr>nombre = ''Smartphone EcoTech Pro'', categoria = ''Electr'' @ o_acute @ ''nicos'',
          precio = 29999 / 100, garantia_dias = 30, elegible_devolucion = True\<rparr>"
  by (simp add: productos_db_def)

lemma unknown_product_text:
  "productos_db producto_id = None \<Longrightarrow>
   verificar_elegibilidad_producto now producto_id fecha_compra =
     Inr (cross_mark @ '' Error: El producto '' @ producto_id @ '' no existe en nuestro sistema.'')"
  by (simp add: verificar_elegibilidad_producto_def verificar_elegibilidad_body_def)

lemma finds_eligible_text:
  "finds_eligible now producto_id fecha_compra \<Longrightarrow>
   \<exists>rest. verificar_elegibilidad_producto now producto_id fecha_compra = Inr (check_mark @ rest)"
  by (auto simp: finds_eligible_def verificar_elegibilidad_producto_def
      verificar_elegibilidad_body_def verificar_condiciones_adicionales_def Let_def
      split: option.splits sum.splits)

lemma cross_not_check: "cross_mark @ a \<noteq> check_mark @ b"
  by (simp add: cross_mark_def check_mark_def)

subsection \<open>Lemmas on the RAG query\<close>

lemma simulated_llm_nonempty: "simulated_llm str_lower prompt \<noteq> []"
  by (simp add: simulated_llm_def Let_def)

lemma query_returns: "\<exists>r. query str_lower self question = Inr r"
  by (simp add: query_def split: sum.splits)

lemma query_failure_text:
  "query_body str_lower self question = Inl e \<Longrightarrow>
   query str_lower self question =
     Inr \<lparr>result = ''Error al procesar la consulta: '' @ exc_str e, source_documents = []\<rparr>"
  by (simp add: query_def)

lemma query_body_chain:
  "qa_chain self = Some (RetrievalQA run) \<Longrightarrow> query_body str_lower self question = run question"
  by (simp add: query_body_def run_chain_def)

subsection \<open>Lemmas on the result of a query\<close>

lemma agent_run_stats: "agent_run (self\<lparr>stats := s\<rparr>) prompt = agent_run self prompt"
  by (simp add: agent_run_def)

lemma process_query_answer:
  "agent_run self (create_contextual_prompt inp) = Inr answer \<Longrightarrow>
   response (fst (process_query now self inp)) = answer \<and>
   agent_status (fst (process_query now self inp)) = ''success'' \<and>
   error (fst (process_query now self inp)) = None \<and>
   errors (stats (snd (process_query now self inp))) = errors (stats self) \<and>
   successful_interactions (stats (snd (process_query now self inp))) =
     successful_interactions (stats self) + 1"
  by (simp add: process_query_def Let_def agent_run_stats)

lemma process_query_raise:
  "agent_run self (create_contextual_prompt inp) = Inl e \<Longrightarrow>
   response (fst (process_query now self inp)) =
     ''Lo siento, ocurri'' @ o_acute @ '' un error al procesar tu consulta: '' @ exc_str e \<and>
   agent_status (fst (process_query now self inp)) = ''error'' \<and>
   error (fst (process_query now self inp)) = Some (exc_str e) \<and>
   errors (stats (snd (process_query now self inp))) = errors (stats self) + 1 \<and>
   successful_interactions (stats (snd (process_query now self inp))) =
     successful_interactions (stats self)"
  by (simp add: process_query_def Let_def agent_run_stats)

subsection \<open>Lemmas on the JSON text of a log entry\<close>

lemma hex_digits_roundtrip: "\<forall>d \<in> set [0..<16]. hex_value (hex_digit d) = Some d"
  by code_simp

lemma hex_value_digit: "d < 16 \<Longrightarrow> hex_value (hex_digit d) = Some d"
  using hex_digits_roundtrip by simp

lemma hex4_control:
  assumes "n < 32"
  shows "hex4 (CHR ''0'') (CHR ''0'') (hex_digit (n div 16)) (hex_digit (n mod 16)) = Some n"
proof -
  have z: "hex_value (CHR ''0'') = Some 0"
    by (simp add: hex_value_def)
  have "n div 16 < 16" using assms by simp
  then have a: "hex_value (hex_digit (n div 16)) = Some (n div 16)"
    by (rule hex_value_digit)
  have b: "hex_value (hex_digit (n mod 16)) = Some (n mod 16)"
    by (rule hex_value_digit) simp
  show ?thesis by (simp add: hex4_def z a b)
qed

lemma scan_quote:
  "scan_string (json_escape_char quote_char @ t) = cons_result quote_char (scan_string t)"
  by (simp add: json_escape_char_def simple_escape_def quote_char_def backslash_char_def)

lemma scan_backslash:
  "scan_string (json_escape_char backslash_char @ t) = cons_result backslash_char (scan_string t)"
  by (simp add: json_escape_char_def simple_escape_def quote_char_def backslash_char_def)

lemma scan_short:
  "c \<in> {CHR 0x08, CHR 0x0C, CHR 0x0A, CHR 0x0D, CHR 0x09} \<Longrightarrow>
   scan_string (json_escape_char c @ t) = cons_result c (scan_string t)"
  by (auto simp: json_escape_char_def simple_escape_def quote_char_def backslash_char_def)

lemma scan_control:
  assumes "(of_char c :: nat) < 32"
    and "c \<notin> {CHR 0x08, CHR 0x0C, CHR 0x0A, CHR 0x0D, CHR 0x09}"
  shows "scan_string (json_escape_char c @ t) = cons_result c (scan_string t)"
proof -
  have nq: "c \<noteq> quote_char" "c \<noteq> backslash_char"
    using assms(1) by (auto simp: quote_char_def backslash_char_def)
  have e: "json_escape_char c =
      [backslash_char, CHR ''u'', CHR ''0'', CHR ''0'',
       hex_digit (of_char c div 16), hex_digit (of_char c mod 16)]"
    using assms nq by (simp add: json_escape_char_def)
  have b: "backslash_char \<noteq> quote_char"
    by (simp add: quote_char_def backslash_char_def)
  show ?thesis
    using assms(1) b by (simp add: e hex4_control)
qed

lemma scan_plain:
  assumes "\<not> (of_char c :: nat) < 32" and "c \<noteq> quote_char" and "c \<noteq> backslash_char"
  shows "scan_string (json_escape_char c @ t) = cons_result c (scan_string t)"
proof -
  have "c \<notin> {CHR 0x08, CHR 0x0C, CHR 0x0A, CHR 0x0D, CHR 0x09}"
    using assms(1) by auto
  then have "json_escape_char c = [c]"
    using assms by (simp add: json_escape_char_def)
  then show ?thesis using assms by simp
qed

lemma scan_step: "scan_string (json_escape_char c @ t) = cons_result c (scan_string t)"
  using scan_quote scan_backslash scan_short scan_control scan_plain
  by metis

lemma scan_encoded:
  "scan_string (concat (map json_escape_char s) @ quote_char # rest) = Some (s, rest)"
  by (induction s) (simp_all add: scan_step cons_result_def)

lemma parse_encoded: "parse_string (json_encode_string s @ rest) = Some (s, rest)"
  by (simp add: parse_string_def json_encode_string_def scan_encoded)

lemma skip_ws_encoded: "skip_ws (json_encode_string s @ rest) = json_encode_string s @ rest"
  by (simp add: skip_ws_def json_encode_string_def json_space_def quote_char_def)

lemma parse_member:
  "parse_string (skip_ws (json_member kv @ rest)) = Some (fst kv, '': '' @ json_encode_string (snd kv) @ rest)"
  by (simp add: json_member_def skip_ws_encoded parse_encoded)

lemma skip_ws_mark:
  "c \<in> {CHR '':'', CHR '','', CHR ''}'', CHR ''{''} \<Longrightarrow> skip_ws (c # rest) = c # rest"
  by (auto simp: skip_ws_def json_space_def)

lemma skip_ws_space: "skip_ws (CHR '' '' # rest) = skip_ws rest"
  by (simp add: skip_ws_def json_space_def)

lemma parse_members_space: "parse_members fuel (CHR '' '' # s) = parse_members fuel s"
  by (cases fuel) (simp_all add: skip_ws_space)

lemma parse_value:
  "parse_string (skip_ws (CHR '' '' # json_encode_string v @ rest)) = Some (v, rest)"
  by (simp add: skip_ws_space skip_ws_encoded parse_encoded)

lemma parse_members_text:
  "ms \<noteq> [] \<Longrightarrow> length ms \<le> fuel \<Longrightarrow>
   parse_members fuel (str_join '', '' (map json_member ms) @ CHR ''}'' # rest) = Some (ms, rest)"
proof (induction ms arbitrary: fuel)
  case Nil
  then show ?case by simp
next
  case (Cons kv ms)
  then obtain f where fuel: "fuel = Suc f" and f: "length ms \<le> f"
    by (cases fuel) auto
  obtain k v where kv: "kv = (k, v)" by (cases kv)
  show ?case
  proof (cases ms)
    case Nil
    have "parse_members (Suc f) (json_member (k, v) @ CHR ''}'' # rest) = Some ([(k, v)], rest)"
      by (simp add: parse_member skip_ws_mark parse_value)
    then show ?thesis by (simp add: Nil fuel kv)
  next
    case (Cons kv' ms')
    let ?tail = "str_join '', '' (map json_member ms) @ CHR ''}'' # rest"
    have ih: "parse_members f ?tail = Some (ms, rest)"
      using Cons.IH [of f] f Cons by simp
    have "parse_members (Suc f) (json_member (k, v) @ '', '' @ ?tail) = Some ((k, v) # ms, rest)"
      using ih
      by (simp add: parse_member skip_ws_mark parse_value parse_members_space)
    then show ?thesis by (simp add: Cons fuel kv)
  qed
qed

lemma json_dumps_length: "length entry \<le> length (str_join '', '' (map json_member entry))"
proof (induction entry rule: induct_list012)
  case 1
  then show ?case by simp
next
  case (2 x)
  then show ?case by (simp add: json_member_def json_encode_string_def)
next
  case (3 x y zs)
  then show ?case by simp
qed

lemma json_roundtrip: "json_loads (json_dumps entry) = Some entry"
proof (cases entry)
  case Nil
  then show ?thesis
    by (simp add: json_loads_def json_dumps_def skip_ws_def json_space_def)
next
  case (Cons kv ms)
  let ?body = "str_join '', '' (map json_member entry) @ CHR ''}'' # []"
  have "\<exists>t. ?body = json_encode_string (fst kv) @ t"
    by (cases ms) (simp_all add: Cons json_member_def)
  then obtain t where body: "?body = json_encode_string (fst kv) @ t" ..
  have "skip_ws ?body = ?body"
    unfolding body by (rule skip_ws_encoded)
  then have start: "\<exists>t. skip_ws ?body = quote_char # t"
    unfolding body by (simp add: json_encode_string_def)
  have fuel: "length entry \<le> length (json_dumps entry)"
    using json_dumps_length [of entry] by (simp add: json_dumps_def)
  have "parse_members (length (json_dumps entry)) ?body = Some (entry, [])"
    using parse_members_text [of entry "length (json_dumps entry)" "[]"] fuel Cons by simp
  moreover have "skip_ws [] = []"
    by (simp add: skip_ws_def)
  moreover have "quote_char \<noteq> CHR ''}''"
    by (simp add: quote_char_def)
  ultimately show ?thesis
    using start
    by (auto simp: json_loads_def json_dumps_def skip_ws_mark)
qed

lemma escape_no_newline: "newline_char \<notin> set (json_escape_char c)"
proof -
  have "hex_digit d \<noteq> newline_char" if "d < 16" for d
  proof -
    have "\<forall>d \<in> set [0..<16]. hex_digit d \<noteq> newline_char" by code_simp
    then show ?thesis using that by simp
  qed
  then have "hex_digit (of_char c div 16) \<noteq> newline_char" "hex_digit (of_char c mod 16) \<noteq> newline_char"
    if "(of_char c :: nat) < 32"
    using that by simp_all
  then show ?thesis
    by (auto simp: json_escape_char_def newline_char_def quote_char_def backslash_char_def)
qed

lemma encode_no_newline: "newline_char \<notin> set (json_encode_string s)"
  using escape_no_newline
  by (auto simp: json_encode_string_def newline_char_def quote_char_def)

lemma member_no_newline: "newline_char \<notin> set (json_member kv)"
  using encode_no_newline by (auto simp: json_member_def newline_char_def)

lemma join_no_newline:
  "\<forall>x \<in> set xs. newline_char \<notin> set x \<Longrightarrow> newline_char \<notin> set (str_join '', '' xs)"
  by (induction xs rule: induct_list012) (auto simp: newline_char_def)

lemma json_dumps_one_line: "newline_char \<notin> set (json_dumps entry)"
proof -
  have "newline_char \<notin> set (str_join '', '' (map json_member entry))"
    by (rule join_no_newline) (simp add: member_no_newline)
  then show ?thesis by (simp add: json_dumps_def newline_char_def)
qed

subsection \<open>Lemmas on the timestamp\<close>

lemma digit_char_is_digit: "d < 10 \<Longrightarrow> is_digit (digit_char d)"
proof -
  have "\<forall>d \<in> set [0..<10]. is_digit (digit_char d)" by code_simp
  then show "d < 10 \<Longrightarrow> is_digit (digit_char d)" by simp
qed

lemma str_nat_digits: "list_all is_digit (str_nat n)"
proof (induction n rule: str_nat.induct)
  case (1 n)
  show ?case
  proof (cases "n < 10")
    case True
    then show ?thesis by (subst str_nat.simps) (simp add: digit_char_is_digit)
  next
    case False
    then show ?thesis
      using "1.IH" by (subst str_nat.simps) (simp add: digit_char_is_digit)
  qed
qed

lemma str_nat_length: "n < 10 ^ w \<Longrightarrow> 0 < w \<Longrightarrow> length (str_nat n) \<le> w"
proof (induction n arbitrary: w rule: str_nat.induct)
  case (1 n)
  show ?case
  proof (cases "n < 10")
    case True
    then show ?thesis using "1.prems" by (subst str_nat.simps) simp
  next
    case False
    then obtain v where w: "w = Suc v" and v: "0 < v"
      using "1.prems" by (cases w; cases "w - 1") auto
    have "n div 10 < 10 ^ v" using "1.prems"(1) w by (simp add: div_less_iff_less_mult)
    then have "length (str_nat (n div 10)) \<le> v" using "1.IH" False v by simp
    then show ?thesis using False w by (subst str_nat.simps) simp
  qed
qed

lemma zero_pad_digits: "list_all is_digit (zero_pad w n)"
proof -
  have "list_all is_digit (replicate k (CHR ''0''))" for k
    by (simp add: list_all_iff is_digit_def)
  then show ?thesis by (simp add: zero_pad_def str_nat_digits)
qed

lemma zero_pad_length: "n < 10 ^ w \<Longrightarrow> 0 < w \<Longrightarrow> length (zero_pad w n) = w"
  using str_nat_length [of n w] by (simp add: zero_pad_def)

lemma take_digits_append:
  "list_all is_digit ds \<Longrightarrow> take_digits (length ds) (ds @ rest) = Some rest"
  by (induction ds) simp_all

lemma take_zero_pad:
  "n < 10 ^ w \<Longrightarrow> 0 < w \<Longrightarrow> take_digits w (zero_pad w n @ rest) = Some rest"
  using take_digits_append [OF zero_pad_digits, of w n rest] zero_pad_length [of n w] by simp

lemma isoformat_iso8601: "valid_datetime dt \<Longrightarrow> iso8601 (isoformat dt)"
proof -
  assume v: "valid_datetime dt"
  have m: "days_in_month (year dt) (month dt) \<le> 31"
    by (simp add: days_in_month_def)
  have b: "year dt < 10 ^ 4" "month dt < 10 ^ 2" "day dt < 10 ^ 2" "hour dt < 10 ^ 2"
    "minute dt < 10 ^ 2" "second dt < 10 ^ 2" "microsecond dt < 10 ^ 6"
    using v m by (simp_all add: valid_datetime_def)
  have d: "date_part (isoformat dt) =
      Some (''T'' @ zero_pad 2 (hour dt) @ '':'' @ zero_pad 2 (minute dt) @ '':'' @
            zero_pad 2 (second dt) @
            (if microsecond dt = 0 then [] else ''.'' @ zero_pad 6 (microsecond dt)))"
    using b by (simp add: date_part_def isoformat_def take_zero_pad expect_char_def)
  have t: "time_part (zero_pad 2 (hour dt) @ CHR '':'' # zero_pad 2 (minute dt) @ CHR '':'' #
            zero_pad 2 (second dt) @ rest) = Some rest" for rest
    using b by (simp add: time_part_def take_zero_pad expect_char_def)
  have f: "take_digits 6 (zero_pad 6 (microsecond dt)) = Some []"
    using take_zero_pad [of "microsecond dt" 6 "[]"] b by simp
  show ?thesis
    by (simp add: iso8601_def d expect_char_def t t [of "[]", simplified] f)
qed

subsection \<open>Lemmas on the delivery to the handlers\<close>

lemma deliver_no_handler: "deliver [] fs events = fs"
  by (induction events arbitrary: fs) auto

lemma line_count_append: "line_count (a @ b) = line_count a + line_count b"
  by (simp add: line_count_def)

lemma line_count_Nil: "line_count [] = 0"
  by (simp add: line_count_def)

lemma line_count_Cons:
  "line_count (c # s) = (if c = newline_char then 1 else 0) + line_count s"
  by (simp add: line_count_def)

lemma line_count_json_dumps: "line_count (json_dumps entry) = 0"
  using json_dumps_one_line [of entry]
  by (auto simp add: line_count_def filter_empty_conv)

text \<open>
  A handler that is called on a log file that can be written appends exactly one line
  to it: the text of the file grows by a text without a newline, followed by a newline.
  The line is a JSON object that parses back to the fields of the entry: the timestamp
  (in ISO-8601 form for a valid clock), the type \<open>agent_action\<close> with tool, tool input and
  log, or the type \<open>agent_finish\<close> with output and log. When the file cannot be written,
  nothing is written and no exception leaves the handler.
\<close>

lemma handler_appends_one_line:
  "(fs (log_file self) \<noteq> Unwritable \<longrightarrow>
      (\<exists>line.
         file_text (on_agent_action now self fs action (log_file self)) =
           file_text (fs (log_file self)) @ line @ [newline_char] \<and>
         newline_char \<notin> set line \<and>
         json_loads line =
           Some [(''timestamp'', isoformat now), (''type'', ''agent_action''),
                 (''tool'', action_tool action), (''tool_input'', action_tool_input action),
                 (''log'', action_log action)]) \<and>
      (\<exists>line.
         file_text (on_agent_finish now self fs finish (log_file self)) =
           file_text (fs (log_file self)) @ line @ [newline_char] \<and>
         newline_char \<notin> set line \<and>
         json_loads line =
           Some [(''timestamp'', isoformat now), (''type'', ''agent_finish''),
                 (''output'', (case map_of (return_values finish) ''output'' of
                                 Some v \<Rightarrow> v | None \<Rightarrow> [])),
                 (''log'', finish_log finish)])) \<and>
   (fs (log_file self) = Unwritable \<longrightarrow>
      on_agent_action now self fs action = fs \<and> on_agent_finish now self fs finish = fs) \<and>
   (valid_datetime now \<longrightarrow> iso8601 (isoformat now))"
proof -
  have written: "file_text (write_log self fs entry (log_file self)) =
      file_text (fs (log_file self)) @ json_dumps entry @ [newline_char]"
    if "fs (log_file self) \<noteq> Unwritable" for entry
    using that
    by (cases "fs (log_file self)") (simp_all add: write_log_def append_to_file_def file_text_def)
  have line: "\<exists>line.
         file_text (write_log self fs entry (log_file self)) =
           file_text (fs (log_file self)) @ line @ [newline_char] \<and>
         newline_char \<notin> set line \<and> json_loads line = Some entry"
    if "fs (log_file self) \<noteq> Unwritable" for entry
    using written [OF that, of entry] json_dumps_one_line [of entry] json_roundtrip [of entry]
    by blast
  have refused: "write_log self fs entry = fs" if "fs (log_file self) = Unwritable" for entry
    using that by (simp add: write_log_def append_to_file_def)
  show ?thesis
    using line [of "action_entry now action"] line [of "finish_entry now finish"]
      refused [of "action_entry now action"] refused [of "finish_entry now finish"]
      isoformat_iso8601 [of now]
    by (simp add: on_agent_action_def on_agent_finish_def action_entry_def finish_entry_def)
qed

subsection \<open>Lemmas on the reasoning loop\<close>











section \<open>Claims\<close>

text \<open>
  C1. For every corpus, every query and every \<open>k \<ge> 0\<close>, \<open>similarity_search\<close> returns the
  first \<open>k\<close> documents of a ranking that holds exactly the documents of positive score
  (the score being the sum, over the terms of the lowercased and split query, of the
  occurrences of the term in the lowercased content), in descending order of score,
  documents of equal score in their order in the corpus. So the result has at most \<open>k\<close>
  documents, and it is empty when no document contains a term of the query.
\<close>

theorem similarity_search_ranks_by_term_count:
  assumes "0 \<le> k"
  shows "(\<exists>ranked.
           similarity_search str_lower str_split docs q k = take (nat k) ranked \<and>
           mset ranked = mset (filter (\<lambda>d. 0 < spec_score str_lower str_split q d) docs) \<and>
           sorted_wrt (\<lambda>a b. spec_score str_lower str_split q b \<le> spec_score str_lower str_split q a)
             ranked \<and>
           (\<forall>s. filter (\<lambda>d. spec_score str_lower str_split q d = s) ranked =
                filter (\<lambda>d. spec_score str_lower str_split q d = s)
                  (filter (\<lambda>d. 0 < spec_score str_lower str_split q d) docs))) \<and>
         int (length (similarity_search str_lower str_split docs q k)) \<le> k \<and>
         ((\<forall>d \<in> set docs. \<forall>t \<in> set (query_terms str_lower str_split q).
             \<not> str_contains (str_lower (page_content d)) t) \<longrightarrow>
          similarity_search str_lower str_split docs q k = [])"
proof -
  let ?sc = "spec_score str_lower str_split q"
  let ?ranked = "list_sort_reverse ?sc (filter (\<lambda>d. 0 < ?sc d) docs)"
  have eq: "similarity_search str_lower str_split docs q k = take (nat k) ?ranked"
    using assms by (simp add: similarity_search_ranked slice_to_def)
  have ranking: "\<exists>ranked.
           similarity_search str_lower str_split docs q k = take (nat k) ranked \<and>
           mset ranked = mset (filter (\<lambda>d. 0 < ?sc d) docs) \<and>
           sorted_wrt (\<lambda>a b. ?sc b \<le> ?sc a) ranked \<and>
           (\<forall>s. filter (\<lambda>d. ?sc d = s) ranked =
                filter (\<lambda>d. ?sc d = s) (filter (\<lambda>d. 0 < ?sc d) docs))"
    using eq mset_list_sort_reverse [of ?sc] sorted_list_sort_reverse [of ?sc]
      stable_list_sort_reverse [of ?sc]
    by blast
  have bound: "int (length (similarity_search str_lower str_split docs q k)) \<le> k"
    using assms by (simp add: eq)
  have none: "(\<forall>d \<in> set docs. \<forall>t \<in> set (query_terms str_lower str_split q).
             \<not> str_contains (str_lower (page_content d)) t) \<longrightarrow>
         similarity_search str_lower str_split docs q k = []"
  proof
    assume "\<forall>d \<in> set docs. \<forall>t \<in> set (query_terms str_lower str_split q).
             \<not> str_contains (str_lower (page_content d)) t"
    then have "\<forall>d \<in> set docs. ?sc d = 0" using spec_score_absent by blast
    then have "filter (\<lambda>d. 0 < ?sc d) docs = []" by (simp add: filter_empty_conv)
    then show "similarity_search str_lower str_split docs q k = []"
      by (simp add: eq list_sort_reverse_def)
  qed
  show ?thesis using ranking bound none by blast
qed

theorem similarity_search_ranks_by_term_count_witness:
  "(0::int) \<le> 2 \<and>
   similarity_search ascii_lower ascii_split corpus ''Return  POLICY'' 2 = [doc_returns, doc_policy] \<and>
   int (length (similarity_search ascii_lower ascii_split corpus ''Return  POLICY'' 2)) \<le> 2 \<and>
   similarity_search ascii_lower ascii_split corpus ''zebra'' 2 = []"
proof -
  have found: "similarity_search ascii_lower ascii_split corpus ''Return  POLICY'' 2 =
      [doc_returns, doc_policy]"
    by code_simp
  have bound: "int (length (similarity_search ascii_lower ascii_split corpus ''Return  POLICY'' 2)) \<le> 2"
    using similarity_search_ranks_by_term_count
      [of 2 ascii_lower ascii_split corpus "''Return  POLICY''"]
    by simp
  have absent: "\<forall>d \<in> set corpus. \<forall>t \<in> set (query_terms ascii_lower ascii_split ''zebra'').
      \<not> str_contains (ascii_lower (page_content d)) t"
    by code_simp
  have "similarity_search ascii_lower ascii_split corpus ''zebra'' 2 = []"
    using similarity_search_ranks_by_term_count
      [of 2 ascii_lower ascii_split corpus "''zebra''"] absent
    by simp
  then show ?thesis using found bound by simp
qed

text \<open>
  C2. For every session of calls to \<open>process_query\<close> that starts from reset stats,
  after each call \<open>total_interactions = successful_interactions + errors\<close>; and each
  call, whether the agent answers or raises, adds exactly one to \<open>total_interactions\<close>
  and exactly one to \<open>successful_interactions + errors\<close>. After the call of index \<open>i\<close>
  the total is \<open>i + 1\<close>.
\<close>

theorem process_query_counts_every_call:
  "stats_consistent (stats (reset_stats self)) \<and>
   total_interactions (stats (snd (process_query now self inp))) =
     total_interactions (stats self) + 1 \<and>
   successful_interactions (stats (snd (process_query now self inp))) +
     errors (stats (snd (process_query now self inp))) =
     successful_interactions (stats self) + errors (stats self) + 1 \<and>
   (\<forall>i < length calls.
      stats_consistent (stats (process_queries (reset_stats self) calls ! i)) \<and>
      total_interactions (stats (process_queries (reset_stats self) calls ! i)) = int i + 1)"
proof -
  have base: "stats_consistent (stats (reset_stats self))"
    by (simp add: reset_stats_def initial_stats_def stats_consistent_def)
  have zero: "total_interactions (stats (reset_stats self)) = 0"
    by (simp add: reset_stats_def initial_stats_def)
  show ?thesis
    using base process_query_step [of now self inp]
      process_queries_invariant [OF base, of _ calls] zero
    by simp
qed

theorem process_query_counts_every_call_witness:
  "(1::nat) < length [(noon, ''a''), (noon, ''b'')] \<and>
   errors (stats (process_queries (reset_stats failing_agent) [(noon, ''a''), (noon, ''b'')] ! 1)) = 2 \<and>
   total_interactions (stats (process_queries (reset_stats failing_agent) [(noon, ''a''), (noon, ''b'')] ! 1)) = 2"
proof -
  have "stats_consistent (stats (process_queries (reset_stats failing_agent) [(noon, ''a''), (noon, ''b'')] ! 1)) \<and>
      total_interactions (stats (process_queries (reset_stats failing_agent) [(noon, ''a''), (noon, ''b'')] ! 1)) = int 1 + 1"
    using process_query_counts_every_call [of failing_agent noon "''a''" "[(noon, ''a''), (noon, ''b'')]"]
    by simp
  moreover have "successful_interactions (stats (process_queries (reset_stats failing_agent) [(noon, ''a''), (noon, ''b'')] ! 1)) = 0"
    by (simp add: process_query_def agent_run_def failing_agent_def reset_stats_def initial_stats_def Let_def)
  ultimately show ?thesis by (simp add: stats_consistent_def)
qed




text \<open>
  C4, as the specification states it: when the backend fails during a query, the
  query returns the ranked results of the lexical fallback. It does not: on a failing
  backend \<open>query\<close> returns the error text and no document, while the lexical search
  over the corpus ranks three documents for the same question.
\<close>

theorem query_does_not_reexecute_fallback_counterexample:
  "query_body ascii_lower broken_pipeline ''Return POLICY'' =
     Inl (PyException ''ConnectionError'' ''backend unavailable'') \<and>
   query ascii_lower broken_pipeline ''Return POLICY'' =
     Inr \<lparr>result = ''Error al procesar la consulta: backend unavailable'',
          source_documents = []\<rparr> \<and>
   similarity_search ascii_lower ascii_split corpus ''Return POLICY'' 4 =
     [doc_returns, doc_policy, doc_policy] \<and>
   map_sum id source_documents (query ascii_lower broken_pipeline ''Return POLICY'') \<noteq>
     Inr (similarity_search ascii_lower ascii_split corpus ''Return POLICY'' 4)"
proof -
  have s: "similarity_search ascii_lower ascii_split corpus ''Return POLICY'' 4 =
     [doc_returns, doc_policy, doc_policy]"
    by code_simp
  show ?thesis
    unfolding s
    by (simp add: query_def query_body_def run_chain_def broken_pipeline_def failing_search_def)
qed

text \<open>
  C4, amended. When the chain raises during a query, \<open>query\<close> catches the exception
  and returns the text \<open>Error al procesar la consulta: <message>\<close> with no source
  document; no exception leaves \<open>query\<close>. The lexical fallback replaces the embedding
  index only when the index is built: if \<open>FAISS.from_documents\<close> raises in
  \<open>create_vectorstore\<close>, the vector store is the \<open>SimulatedVectorStore\<close> over the same
  documents.
\<close>

theorem query_turns_backend_failure_into_error_text:
  "(\<exists>r. query str_lower self question = Inr r) \<and>
   (\<forall>run e. qa_chain self = Some (RetrievalQA run) \<longrightarrow> run question = Inl e \<longrightarrow>
      query str_lower self question =
        Inr \<lparr>result = ''Error al procesar la consulta: '' @ exc_str e, source_documents = []\<rparr>) \<and>
   (\<forall>emb e. \<not> use_simulated_model self \<longrightarrow> embeddings self = Some emb \<longrightarrow>
      faiss_from_documents docs emb = Inl e \<longrightarrow>
      vectorstore (create_vectorstore load_default_documents faiss_from_documents self (Some docs)) =
        Some (SimulatedVectorStore docs))"
proof -
  have caught: "query str_lower self question =
        Inr \<lparr>result = ''Error al procesar la consulta: '' @ exc_str e, source_documents = []\<rparr>"
    if "qa_chain self = Some (RetrievalQA run)" and "run question = Inl e" for run e
    using that by (simp add: query_failure_text query_body_chain)
  have built: "vectorstore (create_vectorstore load_default_documents faiss_from_documents self
        (Some docs)) = Some (SimulatedVectorStore docs)"
    if "\<not> use_simulated_model self" and "embeddings self = Some emb"
      and "faiss_from_documents docs emb = Inl e" for emb e
    using that by (simp add: create_vectorstore_def create_simulated_vectorstore_def)
  show ?thesis
    using query_returns [of str_lower self question] caught built by blast
qed

theorem query_turns_backend_failure_into_error_text_witness:
  "qa_chain broken_pipeline =
     Some (RetrievalQA (\<lambda>q. case failing_search q 4 of
                              Inl e \<Rightarrow> Inl e
                            | Inr ds \<Rightarrow> Inr \<lparr>result = ''answer'', source_documents = ds\<rparr>)) \<and>
   query ascii_lower broken_pipeline ''Return POLICY'' =
     Inr \<lparr>result = ''Error al procesar la consulta: backend unavailable'',
          source_documents = []\<rparr> \<and>
   \<not> use_simulated_model broken_pipeline \<and>
   embeddings broken_pipeline = Some (OpenAIEmbeddings ''key'') \<and>
   vectorstore (create_vectorstore (Inr [])
       (\<lambda>ds emb. Inl (PyException ''AuthenticationError'' ''invalid key''))
       broken_pipeline (Some corpus)) =
     Some (SimulatedVectorStore corpus)"
proof -
  have c: "qa_chain broken_pipeline =
     Some (RetrievalQA (\<lambda>q. case failing_search q 4 of
                              Inl e \<Rightarrow> Inl e
                            | Inr ds \<Rightarrow> Inr \<lparr>result = ''answer'', source_documents = ds\<rparr>))"
    by (simp add: broken_pipeline_def)
  have u: "\<not> use_simulated_model broken_pipeline"
    "embeddings broken_pipeline = Some (OpenAIEmbeddings ''key'')"
    by (simp_all add: broken_pipeline_def)
  show ?thesis
    using query_turns_backend_failure_into_error_text
      [of ascii_lower broken_pipeline "''Return POLICY''"
        "\<lambda>ds emb. Inl (PyException ''AuthenticationError'' ''invalid key'')" corpus "Inr []"]
      c u
    by (simp add: failing_search_def)
qed

text \<open>
  C5: a query for a product id that does not exist gives a response with that id, the
  status \<open>error\<close>, and one more error counted. The eligibility function answers PROD999
  with a text that holds the id; but \<open>create_tools\<close> wraps this function of two
  parameters in a tool that calls it with one argument, the input text. So, for every
  input, the call of the tool raises a \<open>TypeError\<close>, and when the agent invokes the tool
  for a query about PROD999, the exception leaves the run: \<open>process_query\<close> answers with
  its apology and the message of the \<open>TypeError\<close>, which does not hold the id; the status
  is \<open>error\<close> and one more error is counted.
\<close>

theorem unknown_product_query_raises_type_error:
  "run_tool now eligibility_tool tool_input =
     Inl (PyException ''TypeError''
       (''verificar_elegibilidad_producto() missing 1 required positional argument: '' @
        [CHR 0x27] @ ''fecha_compra'' @ [CHR 0x27])) \<and>
   hd (create_tools str_lower generar_etiqueta_devolucion consultar_politicas_devolucion self) =
     eligibility_tool \<and>
   productos_db ''PROD999'' = None \<and>
   verificar_elegibilidad_producto noon ''PROD999'' ''2024-10-01'' =
     Inr (cross_mark @ '' Error: El producto PROD999 no existe en nuestro sistema.'') \<and>
   str_contains unknown_product_question ''PROD999'' \<and>
   agent_run tool_calling_agent (create_contextual_prompt unknown_product_question) =
     run_tool noon eligibility_tool ''PROD999 2024-10-01'' \<and>
   response (fst (process_query noon tool_calling_agent unknown_product_question)) =
     ''Lo siento, ocurri'' @ o_acute @ '' un error al procesar tu consulta: '' @
     ''verificar_elegibilidad_producto() missing 1 required positional argument: '' @
     [CHR 0x27] @ ''fecha_compra'' @ [CHR 0x27] \<and>
   \<not> str_contains (response (fst (process_query noon tool_calling_agent unknown_product_question)))
     ''PROD999'' \<and>
   agent_status (fst (process_query noon tool_calling_agent unknown_product_question)) = ''error'' \<and>
   errors (stats (snd (process_query noon tool_calling_agent unknown_product_question))) =
     errors (stats tool_calling_agent) + 1"
proof -
  let ?message = "''verificar_elegibilidad_producto() missing 1 required positional argument: '' @
        [CHR 0x27] @ ''fecha_compra'' @ [CHR 0x27]"
  have raised: "run_tool t eligibility_tool x = Inl (PyException ''TypeError'' ?message)" for t x
    by (simp add: run_tool_def call_with_one_argument_def eligibility_tool_def missing_argument_def)
  have first: "hd (create_tools str_lower generar_etiqueta_devolucion
      consultar_politicas_devolucion self) = eligibility_tool"
    by (simp add: create_tools_def)
  have unknown: "productos_db ''PROD999'' = None"
    by (simp add: productos_db_def)
  have asked: "str_contains unknown_product_question ''PROD999''"
    by (simp add: unknown_product_question_def)
  have run: "agent_run tool_calling_agent (create_contextual_prompt unknown_product_question) =
      run_tool noon eligibility_tool ''PROD999 2024-10-01''"
    by (simp add: agent_run_def tool_calling_agent_def equipped_agent_def create_tools_def)
  then have "agent_run tool_calling_agent (create_contextual_prompt unknown_product_question) =
      Inl (PyException ''TypeError'' ?message)"
    by (simp only: raised)
  from process_query_raise [OF this, of noon]
  have answer:
    "response (fst (process_query noon tool_calling_agent unknown_product_question)) =
       ''Lo siento, ocurri'' @ o_acute @ '' un error al procesar tu consulta: '' @ ?message"
    "agent_status (fst (process_query noon tool_calling_agent unknown_product_question)) = ''error''"
    "errors (stats (snd (process_query noon tool_calling_agent unknown_product_question))) =
       errors (stats tool_calling_agent) + 1"
    by simp_all
  have absent: "\<not> str_contains
      (''Lo siento, ocurri'' @ o_acute @ '' un error al procesar tu consulta: '' @ ?message)
      ''PROD999''"
    by (simp add: o_acute_def)
  show ?thesis
    using raised [of now tool_input] first unknown unknown_product_text [OF unknown, of noon "''2024-10-01''"]
      asked run answer absent
    by (simp only: append_Cons append_Nil simp_thms)
qed

text \<open>
  C6. For every question, \<open>EcoRAGPipeline.query\<close> returns and does not raise: an exception
  of the chain becomes the text \<open>Error al procesar la consulta: ...\<close>. When the answers
  come from the \<open>SimulatedLLM\<close> (whatever prompt the question and the retrieved
  documents were made into), the text returned is not empty.
\<close>

theorem query_returns_nonempty_text:
  "(\<exists>r. query str_lower self question = Inr r) \<and>
   (\<forall>e. query_body str_lower self question = Inl e \<longrightarrow>
      query str_lower self question =
        Inr \<lparr>result = ''Error al procesar la consulta: '' @ exc_str e, source_documents = []\<rparr>) \<and>
   simulated_llm str_lower prompt \<noteq> [] \<and>
   (answers_by_simulated_llm str_lower self \<longrightarrow>
      (\<exists>r. query str_lower self question = Inr r \<and> result r \<noteq> []))"
proof -
  have nonempty: "\<exists>r. query str_lower self question = Inr r \<and> result r \<noteq> []"
    if a: "answers_by_simulated_llm str_lower self"
  proof (cases "qa_chain self")
    case None
    then show ?thesis by (simp add: query_def query_body_def)
  next
    case (Some chain)
    show ?thesis
    proof (cases chain)
      case SimulatedQAChain
      then show ?thesis
        using Some by (simp add: query_def query_body_def run_chain_def simulated_llm_nonempty)
    next
      case (RetrievalQA run)
      show ?thesis
      proof (cases "run question")
        case (Inl e)
        then show ?thesis
          using Some RetrievalQA by (simp add: query_def query_body_def run_chain_def)
      next
        case (Inr r)
        then obtain prompt where "result r = simulated_llm str_lower prompt"
          using a Some RetrievalQA by (auto simp: answers_by_simulated_llm_def)
        then show ?thesis
          using Inr Some RetrievalQA
          by (simp add: query_def query_body_def run_chain_def simulated_llm_nonempty)
      qed
    qed
  qed
  show ?thesis
    using query_returns [of str_lower self question] query_failure_text nonempty
      simulated_llm_nonempty
    by blast
qed

theorem query_returns_nonempty_text_witness:
  "answers_by_simulated_llm ascii_lower simulated_pipeline \<and>
   (\<exists>r. query ascii_lower simulated_pipeline ''Puedo devolver un producto?'' = Inr r \<and>
        result r \<noteq> []) \<and>
   query_body ascii_lower broken_pipeline ''return policy'' =
     Inl (PyException ''ConnectionError'' ''backend unavailable'') \<and>
   query ascii_lower broken_pipeline ''return policy'' =
     Inr \<lparr>result = ''Error al procesar la consulta: backend unavailable'',
          source_documents = []\<rparr>"
proof -
  have a: "answers_by_simulated_llm ascii_lower simulated_pipeline"
    by (auto simp: answers_by_simulated_llm_def simulated_pipeline_def)
  have b: "query_body ascii_lower broken_pipeline ''return policy'' =
     Inl (PyException ''ConnectionError'' ''backend unavailable'')"
    by (simp add: query_body_def run_chain_def broken_pipeline_def failing_search_def)
  show ?thesis
    using query_returns_nonempty_text
      [of ascii_lower simulated_pipeline "''Puedo devolver un producto?''"]
      query_returns_nonempty_text [of ascii_lower broken_pipeline "''return policy''"] a b
    by simp
qed

text \<open>
  C7. For every \<open>producto_id\<close> that is not in the product table and every \<open>fecha_compra\<close>,
  \<open>verificar_elegibilidad_producto\<close> returns (it does not raise) the error text
  \<open>Error: El producto <id> no existe en nuestro sistema.\<close> behind the cross mark. The
  text contains the id, and it differs from the answer of every call that finds a
  product eligible: that answer begins with the check mark.
\<close>

theorem unknown_product_is_reported_as_text:
  assumes "productos_db producto_id = None"
  shows "(\<exists>t. verificar_elegibilidad_producto now producto_id fecha_compra = Inr t \<and>
              t = cross_mark @ '' Error: El producto '' @ producto_id @
                  '' no existe en nuestro sistema.'' \<and>
              str_contains t producto_id) \<and>
         (\<forall>now' producto_id' fecha_compra'.
            finds_eligible now' producto_id' fecha_compra' \<longrightarrow>
            (\<exists>rest. verificar_elegibilidad_producto now' producto_id' fecha_compra' =
                      Inr (check_mark @ rest)) \<and>
            verificar_elegibilidad_producto now' producto_id' fecha_compra' \<noteq>
              verificar_elegibilidad_producto now producto_id fecha_compra)"
proof -
  let ?t = "cross_mark @ '' Error: El producto '' @ producto_id @
            '' no existe en nuestro sistema.''"
  have r: "verificar_elegibilidad_producto now producto_id fecha_compra = Inr ?t"
    using assms by (rule unknown_product_text)
  have "str_contains ((cross_mark @ '' Error: El producto '') @ producto_id @
          '' no existe en nuestro sistema.'') producto_id"
    by (rule str_contains_append)
  then have c: "str_contains ?t producto_id" by simp
  have d: "verificar_elegibilidad_producto now' producto_id' fecha_compra' \<noteq>
           verificar_elegibilidad_producto now producto_id fecha_compra"
    if "finds_eligible now' producto_id' fecha_compra'" for now' producto_id' fecha_compra'
    using finds_eligible_text [OF that] r cross_not_check by auto
  show ?thesis using r c d finds_eligible_text by blast
qed

theorem unknown_product_is_reported_as_text_witness:
  "productos_db ''PROD999'' = None \<and>
   verificar_elegibilidad_producto noon ''PROD999'' ''2024-10-01'' =
     Inr (cross_mark @ '' Error: El producto PROD999 no existe en nuestro sistema.'') \<and>
   str_contains (cross_mark @ '' Error: El producto PROD999 no existe en nuestro sistema.'')
     ''PROD999'' \<and>
   finds_eligible noon ''PROD001'' ''2024-11-25'' \<and>
   verificar_elegibilidad_producto noon ''PROD001'' ''2024-11-25'' \<noteq>
     verificar_elegibilidad_producto noon ''PROD999'' ''2024-10-01''"
proof -
  have unknown: "productos_db ''PROD999'' = None"
    by (simp add: productos_db_def)
  have eligible: "finds_eligible noon ''PROD001'' ''2024-11-25''"
    by code_simp
  show ?thesis
    using unknown_product_is_reported_as_text
      [OF unknown, of noon "''2024-10-01''"] unknown eligible
    by auto
qed

text \<open>
  C8. For product PROD001, whose return period is 30 days, and every purchase date
  that \<open>strptime\<close> accepts and that lies more than 30 whole days before the clock,
  \<open>verificar_elegibilidad_producto\<close> returns the text that the product is no longer
  eligible, which states the days elapsed and the period of 30 days.
\<close>

theorem expired_purchase_is_refused:
  assumes "strptime_ymd fecha_compra = Inr fecha_compra_obj"
    and "30 < timedelta_days now fecha_compra_obj"
  shows "\<exists>t. verificar_elegibilidad_producto now ''PROD001'' fecha_compra = Inr t \<and>
             t = cross_mark @ '' El producto Smartphone EcoTech Pro (PROD001) ya no es elegible '' @
                 ''para devoluci'' @ o_acute @ ''n. Han transcurrido '' @
                 str_int (timedelta_days now fecha_compra_obj) @ '' d'' @ i_acute @
                 ''as desde la compra, pero el per'' @ i_acute @ ''odo de devoluci'' @ o_acute @
                 ''n es de 30 d'' @ i_acute @ ''as.'' \<and>
             str_contains t (''ya no es elegible'') \<and>
             str_contains t (''Han transcurrido '' @ str_int (timedelta_days now fecha_compra_obj) @
                             '' d'' @ i_acute @ ''as'') \<and>
             str_contains t (''es de 30 d'' @ i_acute @ ''as'')"
proof -
  let ?n = "str_int (timedelta_days now fecha_compra_obj)"
  let ?a1 = "cross_mark @ '' El producto Smartphone EcoTech Pro (PROD001) ''"
  let ?b1 = "''ya no es elegible''"
  let ?c1 = "'' para devoluci'' @ o_acute @ ''n. Han transcurrido '' @ ?n @ '' d'' @ i_acute @
             ''as desde la compra, pero el per'' @ i_acute @ ''odo de devoluci'' @ o_acute @
             ''n es de 30 d'' @ i_acute @ ''as.''"
  let ?a2 = "cross_mark @ '' El producto Smartphone EcoTech Pro (PROD001) ya no es elegible '' @
             ''para devoluci'' @ o_acute @ ''n. ''"
  let ?b2 = "''Han transcurrido '' @ ?n @ '' d'' @ i_acute @ ''as''"
  let ?c2 = "'' desde la compra, pero el per'' @ i_acute @ ''odo de devoluci'' @ o_acute @
             ''n es de 30 d'' @ i_acute @ ''as.''"
  let ?a3 = "?a2 @ ?b2 @ '' desde la compra, pero el per'' @ i_acute @ ''odo de devoluci'' @
             o_acute @ ''n ''"
  let ?b3 = "''es de 30 d'' @ i_acute @ ''as''"
  let ?t = "?a1 @ ?b1 @ ?c1"
  have r: "verificar_elegibilidad_producto now ''PROD001'' fecha_compra = Inr ?t"
    using assms
    by (simp add: verificar_elegibilidad_producto_def verificar_elegibilidad_body_def prod001
        Let_def str_int_30)
  have "str_contains (?a1 @ ?b1 @ ?c1) ?b1" "str_contains (?a2 @ ?b2 @ ?c2) ?b2"
    "str_contains (?a3 @ ?b3 @ ''.'') ?b3"
    by (rule str_contains_append)+
  then have "str_contains ?t ?b1" "str_contains ?t ?b2" "str_contains ?t ?b3"
    by simp_all
  then show ?thesis using r by simp
qed

theorem expired_purchase_is_refused_witness:
  "strptime_ymd ''2024-10-01'' =
     Inr \<lparr>year = 2024, month = 10, day = 1, hour = 0, minute = 0, second = 0, microsecond = 0\<rparr> \<and>
   30 < timedelta_days noon
     \<lparr>year = 2024, month = 10, day = 1, hour = 0, minute = 0, second = 0, microsecond = 0\<rparr> \<and>
   verificar_elegibilidad_producto noon ''PROD001'' ''2024-10-01'' =
     Inr (cross_mark @ '' El producto Smartphone EcoTech Pro (PROD001) ya no es elegible '' @
          ''para devoluci'' @ o_acute @ ''n. Han transcurrido 61 d'' @ i_acute @
          ''as desde la compra, pero el per'' @ i_acute @ ''odo de devoluci'' @ o_acute @
          ''n es de 30 d'' @ i_acute @ ''as.'')"
proof -
  let ?d = "\<lparr>year = 2024, month = 10, day = 1, hour = 0, minute = 0, second = 0, microsecond = 0\<rparr>"
  have parsed: "strptime_ymd ''2024-10-01'' = Inr ?d"
    by code_simp
  have days: "timedelta_days noon ?d = 61"
    by code_simp
  have late: "30 < timedelta_days noon ?d"
    using days by simp
  have s: "str_int 61 = ''61''"
    by code_simp
  show ?thesis
    using expired_purchase_is_refused [OF parsed late] parsed late days s
    by simp
qed

text \<open>
  C9: every capability invocation and every final answer produces exactly one line
  in the event log, a JSON object with a timestamp and a \<open>type\<close> equal to \<open>action\<close> or
  \<open>finish\<close>. \<open>__init__\<close> builds the logger, but neither \<open>create_agent\<close> nor \<open>process_query\<close>
  passes it to the executor: no handler is registered for a run, so the actions and the
  final answer of a run are delivered to no handler and the log file is as it was. For a
  run that takes one action and gives a final answer, the log file of the agent's logger
  has no line; it would have two, had the logger been registered. The line that the
  handler writes for an action has the \<open>type\<close> \<open>agent_action\<close>, and the one for a final
  answer \<open>agent_finish\<close>.
\<close>

theorem logger_is_not_registered:
  "logger (init_eco_agent openai_api_key) = \<lparr>log_file = ''logs/interacciones.log''\<rparr> \<and>
   callbacks create_agent_options = [] \<and>
   run_callbacks self = [] \<and>
   registered_handlers self = [] \<and>
   deliver (registered_handlers self) fs events = fs \<and>
   length sample_events = 2 \<and>
   line_count (file_text
     (deliver (registered_handlers (init_eco_agent None)) empty_disk sample_events
        ''logs/interacciones.log'')) = 0 \<and>
   line_count (file_text
     (deliver [logger (init_eco_agent None)] empty_disk sample_events
        ''logs/interacciones.log'')) = 2 \<and>
   file_text
     (deliver [logger (init_eco_agent None)] empty_disk sample_events ''logs/interacciones.log'') =
     json_dumps (action_entry noon sample_action) @ [newline_char] @
     json_dumps (finish_entry noon sample_finish) @ [newline_char] \<and>
   map_option (\<lambda>entry. map_of entry ''type'')
     (json_loads (json_dumps (action_entry noon sample_action))) = Some (Some ''agent_action'') \<and>
   map_option (\<lambda>entry. map_of entry ''type'')
     (json_loads (json_dumps (finish_entry noon sample_finish))) = Some (Some ''agent_finish'')"
proof -
  have built: "logger (init_eco_agent openai_api_key) = \<lparr>log_file = ''logs/interacciones.log''\<rparr>"
    by (simp add: init_eco_agent_def)
  have passed: "callbacks create_agent_options = []"
    by (simp add: create_agent_options_def)
  have called: "run_callbacks self = []"
    by (simp add: run_callbacks_def)
  have none: "registered_handlers a = []" for a
    by (simp add: registered_handlers_def run_callbacks_def create_agent_options_def)
  have silent: "deliver (registered_handlers a) d evs = d" for a d evs
    by (simp only: none deliver_no_handler)
  have events: "length sample_events = 2"
    by (simp add: sample_events_def)
  have unwritten: "line_count (file_text
     (deliver (registered_handlers (init_eco_agent None)) empty_disk sample_events
        ''logs/interacciones.log'')) = 0"
    by (simp add: silent empty_disk_def file_text_def line_count_Nil)
  have written: "file_text
     (deliver [logger (init_eco_agent None)] empty_disk sample_events ''logs/interacciones.log'') =
     json_dumps (action_entry noon sample_action) @ [newline_char] @
     json_dumps (finish_entry noon sample_finish) @ [newline_char]"
    by (simp add: init_eco_agent_def sample_events_def handle_event_def on_agent_action_def
        on_agent_finish_def write_log_def append_to_file_def empty_disk_def file_text_def)
  have two: "line_count (file_text
     (deliver [logger (init_eco_agent None)] empty_disk sample_events
        ''logs/interacciones.log'')) = 2"
    unfolding written
    by (simp add: line_count_append line_count_Cons line_count_Nil line_count_json_dumps)
  have types: "map_option (\<lambda>entry. map_of entry ''type'')
       (json_loads (json_dumps (action_entry noon sample_action))) = Some (Some ''agent_action'')"
    "map_option (\<lambda>entry. map_of entry ''type'')
       (json_loads (json_dumps (finish_entry noon sample_finish))) = Some (Some ''agent_finish'')"
    by (simp_all add: json_roundtrip action_entry_def finish_entry_def)
  show ?thesis
    by (intro conjI)
      (rule built passed called none silent events unwritten two written types)+
qed

text \<open>
  C10. \<open>get_stats\<close> never divides by zero: the divisor \<open>max(total_interactions, 1)\<close> is
  not zero, the report is returned with \<open>error_rate = errors / max(total_interactions, 1)\<close>,
  and on stats that have counted no interaction (fresh or reset) the rate is \<open>0\<close>.
\<close>

theorem get_stats_never_divides_by_zero:
  "max (total_interactions (stats self)) 1 \<noteq> 0 \<and>
   (\<exists>r. get_stats self = Inr r \<and>
        error_rate r = of_int (errors (stats self)) / of_int (max (total_interactions (stats self)) 1)) \<and>
   (\<exists>r. get_stats (reset_stats self) = Inr r \<and> error_rate r = 0)"
  by (simp add: get_stats_def true_div_def reset_stats_def initial_stats_def)

end

